theory Spec2Isabelle
  imports Complex_Main
begin

section \<open>Strings as the source uses them\<close>

text \<open>
  Python strings are modelled as HOL strings restricted to ASCII text: the character
  classes below are those of \<open>str.isspace\<close>, \<open>str.lower\<close> and the regular expression
  classes \<open>\w\<close> and \<open>\s\<close> on code points below 128.
\<close>

definition py_isspace :: "char \<Rightarrow> bool" where
  "py_isspace c =
     (let n = (of_char c :: nat)
      in (9 \<le> n \<and> n \<le> 13) \<or> (28 \<le> n \<and> n \<le> 32))"

definition is_word :: "char \<Rightarrow> bool" where
  \<comment> \<open>the class \<open>\w\<close>: letters, digits and the underscore\<close>
  "is_word c =
     (let n = (of_char c :: nat)
      in (48 \<le> n \<and> n \<le> 57) \<or> (65 \<le> n \<and> n \<le> 90) \<or> n = 95 \<or> (97 \<le> n \<and> n \<le> 122))"

definition lower_char :: "char \<Rightarrow> char" where
  "lower_char c =
     (let n = (of_char c :: nat)
      in if 65 \<le> n \<and> n \<le> 90 then char_of (n + 32) else c)"

definition lower :: "string \<Rightarrow> string" where
  "lower s = map lower_char s"

text \<open>\<open>s.split()\<close>: the maximal runs of non-whitespace characters.\<close>

fun split_ws_acc :: "string \<Rightarrow> string \<Rightarrow> string list" where
  "split_ws_acc cur [] = (if cur = [] then [] else [cur])"
| "split_ws_acc cur (c # cs) =
     (if py_isspace c
      then (if cur = [] then split_ws_acc [] cs else cur # split_ws_acc [] cs)
      else split_ws_acc (cur @ [c]) cs)"

definition split_ws :: "string \<Rightarrow> string list" where
  "split_ws s = split_ws_acc [] s"

text \<open>\<open>s.split(sep)\<close> for a one-character separator: empty fields are kept.\<close>

fun split_on :: "char \<Rightarrow> string \<Rightarrow> string list" where
  "split_on sep [] = [[]]"
| "split_on sep (c # cs) =
     (if c = sep then [] # split_on sep cs
      else (case split_on sep cs of
              [] \<Rightarrow> [[c]]
            | p # ps \<Rightarrow> (c # p) # ps))"

text \<open>\<open>sep.join(parts)\<close>.\<close>

fun join :: "string \<Rightarrow> string list \<Rightarrow> string" where
  "join sep [] = []"
| "join sep [p] = p"
| "join sep (p # q # ps) = p @ sep @ join sep (q # ps)"

text \<open>\<open>s.strip()\<close> and \<open>s.strip(chars)\<close>.\<close>

definition strip_with :: "(char \<Rightarrow> bool) \<Rightarrow> string \<Rightarrow> string" where
  "strip_with P s = rev (dropWhile P (rev (dropWhile P s)))"

definition strip :: "string \<Rightarrow> string" where
  "strip s = strip_with py_isspace s"

text \<open>\<open>re.sub(r"\s+", " ", s)\<close>: every maximal run of whitespace becomes one space.\<close>

fun collapse_ws_run :: "bool \<Rightarrow> string \<Rightarrow> string" where
  "collapse_ws_run in_run [] = []"
| "collapse_ws_run in_run (c # cs) =
     (if py_isspace c
      then (if in_run then collapse_ws_run True cs
            else CHR '' '' # collapse_ws_run True cs)
      else c # collapse_ws_run False cs)"

definition collapse_ws :: "string \<Rightarrow> string" where
  "collapse_ws s = collapse_ws_run False s"

text \<open>\<open>re.sub(r"[^...]", " ", s)\<close> for a character class given as a predicate.\<close>

definition blank_unless :: "(char \<Rightarrow> bool) \<Rightarrow> string \<Rightarrow> string" where
  "blank_unless keep s = map (\<lambda>c. if keep c then c else CHR '' '') s"


section \<open>The normalizer\<close>

definition TITLE_ABBREVIATIONS :: "(string \<times> string) list" where
  "TITLE_ABBREVIATIONS =
    [(''sr'', ''senior''), (''sr.'', ''senior''),
     (''jr'', ''junior''), (''jr.'', ''junior''),
     (''mgr'', ''manager''), (''mgr.'', ''manager''),
     (''eng'', ''engineer''), (''engr'', ''engineer''), (''engr.'', ''engineer''),
     (''dev'', ''developer''),
     (''devops'', ''development operations''),
     (''sre'', ''site reliability engineer''),
     (''qa'', ''quality assurance''),
     (''ui'', ''user interface''),
     (''ux'', ''user experience''),
     (''vp'', ''vice president''),
     (''cto'', ''chief technology officer''),
     (''ceo'', ''chief executive officer''),
     (''cfo'', ''chief financial officer''),
     (''coo'', ''chief operating officer''),
     (''svp'', ''senior vice president''),
     (''evp'', ''executive vice president''),
     (''assoc'', ''associate''),
     (''asst'', ''assistant''),
     (''dir'', ''director''), (''dir.'', ''director''),
     (''admin'', ''administrator''),
     (''coord'', ''coordinator''), (''coord.'', ''coordinator''),
     (''acct'', ''account''),
     (''dept'', ''department''),
     (''ops'', ''operations''),
     (''spec'', ''specialist'')]"

definition LOCATION_NORMALIZATIONS :: "(string \<times> string) list" where
  "LOCATION_NORMALIZATIONS =
    [(''sf'', ''san francisco''),
     (''ny'', ''new york''),
     (''nyc'', ''new york city''),
     (''la'', ''los angeles''),
     (''dc'', ''washington dc''),
     (''remote us'', ''remote''),
     (''remote - us'', ''remote''),
     (''remote (us)'', ''remote''),
     (''work from home'', ''remote''),
     (''wfh'', ''remote'')]"

definition STATE_ABBREVIATIONS :: "(string \<times> string) list" where
  "STATE_ABBREVIATIONS =
    [(''ca'', ''california''), (''ny'', ''new york''), (''tx'', ''texas''),
     (''fl'', ''florida''), (''il'', ''illinois''), (''ma'', ''massachusetts''),
     (''wa'', ''washington''), (''pa'', ''pennsylvania''), (''oh'', ''ohio''),
     (''ga'', ''georgia''), (''nc'', ''north carolina''), (''mi'', ''michigan''),
     (''nj'', ''new jersey''), (''va'', ''virginia''), (''az'', ''arizona''),
     (''co'', ''colorado''), (''or'', ''oregon''), (''md'', ''maryland''),
     (''tn'', ''tennessee''), (''in'', ''indiana'')]"

definition expand_title_word :: "string \<Rightarrow> string" where
  "expand_title_word word =
     (let clean_word = strip_with (\<lambda>c. c = CHR ''.'') word
      in case map_of TITLE_ABBREVIATIONS clean_word of
           Some full \<Rightarrow> full
         | None \<Rightarrow> word)"

definition normalize_title :: "string \<Rightarrow> string" where
  "normalize_title title =
     (if title = [] then []
      else
        let normalized = lower title;
            normalized = blank_unless (\<lambda>c. is_word c \<or> py_isspace c \<or> c = CHR ''-'') normalized;
            words = split_ws normalized;
            expanded_words = map expand_title_word words;
            normalized = join '' '' expanded_words;
            normalized = map (\<lambda>c. if c = CHR ''-'' then CHR '' '' else c) normalized
        in strip (collapse_ws normalized))"

definition expand_location_word :: "string \<Rightarrow> string" where
  "expand_location_word word =
     (case (if length word = 2 then map_of STATE_ABBREVIATIONS word else None) of
        Some full \<Rightarrow> full
      | None \<Rightarrow>
         (case map_of LOCATION_NORMALIZATIONS word of
            Some full \<Rightarrow> full
          | None \<Rightarrow> word))"

definition normalize_location :: "string \<Rightarrow> string" where
  "normalize_location location =
     (if location = [] then ''unknown''
      else
        let normalized = lower location
        in case map_of LOCATION_NORMALIZATIONS normalized of
             Some full \<Rightarrow> full
           | None \<Rightarrow>
              (let normalized = blank_unless (\<lambda>c. is_word c \<or> py_isspace c \<or> c = CHR '','') normalized;
                   parts = map strip (split_on CHR '','' normalized);
                   processed_parts = map (\<lambda>part. join '' '' (map expand_location_word (split_ws part))) parts;
                   normalized = join '' '' processed_parts;
                   normalized = strip (collapse_ws normalized)
               in if normalized = [] then ''unknown'' else normalized))"

definition create_signature :: "string \<Rightarrow> string \<Rightarrow> string \<Rightarrow> string" where
  "create_signature company_id title location =
     company_id @ ''|'' @ normalize_title title @ ''|'' @ normalize_location location"


section \<open>The matcher\<close>

text \<open>
  The matcher scores with three string metrics of the fuzzy-matching library it imports
  (\<open>fuzz.ratio\<close>, \<open>fuzz.token_sort_ratio\<close>, \<open>fuzz.token_set_ratio\<close>), each on a
  scale from 0 to 100. The library is not part of the repository, so the matcher takes
  the three metrics as a parameter. Python floats are modelled as reals.
\<close>

record fuzz =
  ratio :: "string \<Rightarrow> string \<Rightarrow> real"
  token_sort_ratio :: "string \<Rightarrow> string \<Rightarrow> real"
  token_set_ratio :: "string \<Rightarrow> string \<Rightarrow> real"

datatype error = ValueError real
  \<comment> \<open>"Similarity threshold must be between 0.0 and 1.0, got ..."\<close>

record JobMatcher =
  similarity_threshold :: real

definition JobMatcher_init :: "real \<Rightarrow> error + JobMatcher" where
  "JobMatcher_init threshold =
     (if \<not> (0 \<le> threshold \<and> threshold \<le> 1) then Inl (ValueError threshold)
      else Inr \<lparr>similarity_threshold = threshold\<rparr>)"

definition calculate_similarity :: "fuzz \<Rightarrow> string \<Rightarrow> string \<Rightarrow> real" where
  "calculate_similarity fz signature1 signature2 =
     (let parts1 = split_on CHR ''|'' signature1;
          parts2 = split_on CHR ''|'' signature2
      in if length parts1 \<noteq> 3 \<or> length parts2 \<noteq> 3
         then token_set_ratio fz signature1 signature2 / 100
         else
           let company_score = ratio fz (parts1 ! 0) (parts2 ! 0);
               title_score = token_sort_ratio fz (parts1 ! 1) (parts2 ! 1);
               location_score = ratio fz (parts1 ! 2) (parts2 ! 2);
               combined_score = 0.10 * company_score + 0.60 * title_score + 0.30 * location_score
           in combined_score / 100)"

definition is_match :: "fuzz \<Rightarrow> JobMatcher \<Rightarrow> string \<Rightarrow> string \<Rightarrow> bool" where
  "is_match fz m signature1 signature2 =
     (calculate_similarity fz signature1 signature2 \<ge> similarity_threshold m)"

text \<open>
  The scan of \<open>find_best_match\<close>: the pair is \<open>(best_match, best_score)\<close>, started at
  \<open>(None, 0.0)\<close> and replaced only by a strictly greater score.
\<close>

fun best_match_loop ::
  "fuzz \<Rightarrow> string \<Rightarrow> string list \<Rightarrow> string option \<times> real \<Rightarrow> string option \<times> real" where
  "best_match_loop fz query [] best = best"
| "best_match_loop fz query (candidate # rest) best =
     (let score = calculate_similarity fz query candidate
      in if score > snd best
         then best_match_loop fz query rest (Some candidate, score)
         else best_match_loop fz query rest best)"

text \<open>\<open>find_best_match(..., return_score=True)\<close>.\<close>

definition find_best_match_score ::
  "fuzz \<Rightarrow> JobMatcher \<Rightarrow> string \<Rightarrow> string list \<Rightarrow> string option \<times> real" where
  "find_best_match_score fz m query_signature candidate_signatures =
     (if candidate_signatures = [] then (None, 0)
      else
        let best = best_match_loop fz query_signature candidate_signatures (None, 0)
        in if snd best \<ge> similarity_threshold m then (fst best, snd best)
           else (None, snd best))"

text \<open>\<open>find_best_match(...)\<close> with the default \<open>return_score=False\<close>.\<close>

definition find_best_match ::
  "fuzz \<Rightarrow> JobMatcher \<Rightarrow> string \<Rightarrow> string list \<Rightarrow> string option" where
  "find_best_match fz m query_signature candidate_signatures =
     (if candidate_signatures = [] then None
      else
        let best = best_match_loop fz query_signature candidate_signatures (None, 0)
        in if snd best \<ge> similarity_threshold m then fst best
           else None)"

definition find_all_matches ::
  "fuzz \<Rightarrow> JobMatcher \<Rightarrow> string \<Rightarrow> string list \<Rightarrow> int option \<Rightarrow> (string \<times> real) list" where
  "find_all_matches fz m query_signature candidate_signatures limit =
     (if candidate_signatures = [] then []
      else
        let scored = map (\<lambda>c. (c, calculate_similarity fz query_signature c)) candidate_signatures;
            matches = filter (\<lambda>(c, score). score \<ge> similarity_threshold m) scored;
            matches = sort_key (\<lambda>(c, score). - score) matches
        in case limit of
             None \<Rightarrow> matches
           | Some l \<Rightarrow> (if l > 0 then take (nat l) matches else matches))"


section \<open>A model of the library metrics\<close>

text \<open>
  The three metrics of the \<open>rapidfuzz\<close> library as its documentation and reference
  implementation give them, with no processor and no score cutoff:
  \<open>ratio\<close> is the normalised insertion/deletion similarity
  \<open>100 * (1 - d / (len a + len b))\<close> with \<open>d = len a + len b - 2 * lcs a b\<close>
  (100 for two empty strings);
  \<open>token_sort_ratio\<close> is \<open>ratio\<close> on the sorted, space-joined tokens;
  \<open>token_set_ratio\<close> compares the sets of tokens, is 0 when either set is empty and
  100 when one set contains the other.
  The general statements below hold for every record of metrics that meets
  \<open>metric_contract\<close>; this model gives the concrete instances.
\<close>

fun lcs :: "string \<Rightarrow> string \<Rightarrow> nat" where
  "lcs [] ys = 0"
| "lcs (x # xs) [] = 0"
| "lcs (x # xs) (y # ys) =
     (if x = y then Suc (lcs xs ys)
      else max (lcs xs (y # ys)) (lcs (x # xs) ys))"

definition indel_distance :: "string \<Rightarrow> string \<Rightarrow> nat" where
  "indel_distance a b = length a + length b - 2 * lcs a b"

definition norm_distance :: "nat \<Rightarrow> nat \<Rightarrow> real" where
  "norm_distance d lensum =
     (if lensum > 0 then 100 - 100 * real d / real lensum else 100)"

definition rf_ratio :: "string \<Rightarrow> string \<Rightarrow> real" where
  "rf_ratio a b = norm_distance (indel_distance a b) (length a + length b)"

fun str_le :: "string \<Rightarrow> string \<Rightarrow> bool" where
  "str_le [] ys = True"
| "str_le (x # xs) [] = False"
| "str_le (x # xs) (y # ys) =
     ((of_char x :: nat) < of_char y \<or> (x = y \<and> str_le xs ys))"

fun insert_token :: "string \<Rightarrow> string list \<Rightarrow> string list" where
  "insert_token t [] = [t]"
| "insert_token t (u # us) = (if str_le t u then t # u # us else u # insert_token t us)"

definition sorted_tokens :: "string list \<Rightarrow> string list" where
  "sorted_tokens ts = foldr insert_token ts []"

definition rf_token_sort_ratio :: "string \<Rightarrow> string \<Rightarrow> real" where
  "rf_token_sort_ratio a b =
     rf_ratio (join '' '' (sorted_tokens (split_ws a))) (join '' '' (sorted_tokens (split_ws b)))"

definition rf_token_set_ratio :: "string \<Rightarrow> string \<Rightarrow> real" where
  "rf_token_set_ratio a b =
     (let tokens_a = remdups (split_ws a);
          tokens_b = remdups (split_ws b)
      in if tokens_a = [] \<or> tokens_b = [] then 0
         else
           let intersect = filter (\<lambda>t. t \<in> set tokens_b) tokens_a;
               diff_ab = filter (\<lambda>t. t \<notin> set tokens_b) tokens_a;
               diff_ba = filter (\<lambda>t. t \<notin> set tokens_a) tokens_b
           in if intersect \<noteq> [] \<and> (diff_ab = [] \<or> diff_ba = []) then 100
              else
                let diff_ab_joined = join '' '' (sorted_tokens diff_ab);
                    diff_ba_joined = join '' '' (sorted_tokens diff_ba);
                    ab_len = length diff_ab_joined;
                    ba_len = length diff_ba_joined;
                    sect_len = length (join '' '' intersect);
                    sep_len = (if sect_len \<noteq> 0 then 1 else 0);
                    sect_ab_len = sect_len + sep_len + ab_len;
                    sect_ba_len = sect_len + sep_len + ba_len;
                    result = norm_distance (indel_distance diff_ab_joined diff_ba_joined)
                               (sect_ab_len + sect_ba_len)
                in if sect_len = 0 then result
                   else
                     let sect_ab_ratio = norm_distance (sep_len + ab_len) (sect_len + sect_ab_len);
                         sect_ba_ratio = norm_distance (sep_len + ba_len) (sect_len + sect_ba_len)
                     in max result (max sect_ab_ratio sect_ba_ratio))"

definition rapidfuzz :: fuzz where
  "rapidfuzz =
     \<lparr>ratio = rf_ratio,
      token_sort_ratio = rf_token_sort_ratio,
      token_set_ratio = rf_token_set_ratio\<rparr>"


section \<open>Dates and times\<close>

text \<open>
  A naive \<open>datetime\<close> is modelled as the number of microseconds since
  0001-01-01T00:00:00 on the proleptic Gregorian calendar, so that comparison and
  subtraction of a \<open>timedelta\<close> are comparison and subtraction of integers.
  \<open>date\<close> is the day ordinal (day 1 is 0001-01-01) and \<open>ord2ymd\<close> the calendar
  conversion behind \<open>str(date)\<close> and \<open>isoformat()\<close>.
\<close>

type_synonym datetime = int

definition timedelta_days :: "int \<Rightarrow> int" where
  "timedelta_days days = days * 86400000000"

definition date :: "datetime \<Rightarrow> int" where
  "date t = t div 86400000000 + 1"

definition DAYS_IN_MONTH :: "int list" where
  "DAYS_IN_MONTH = [-1, 31, 28, 31, 30, 31, 30, 31, 31, 30, 31, 30, 31]"

definition DAYS_BEFORE_MONTH :: "int list" where
  "DAYS_BEFORE_MONTH = [-1, 0, 31, 59, 90, 120, 151, 181, 212, 243, 273, 304, 334]"

definition ord2ymd :: "int \<Rightarrow> int \<times> int \<times> int" where
  "ord2ymd ordinal =
     (let n = ordinal - 1;
          n400 = n div 146097; n = n mod 146097;
          n100 = n div 36524; n = n mod 36524;
          n4 = n div 1461; n = n mod 1461;
          n1 = n div 365; n = n mod 365;
          year = n400 * 400 + 1 + n100 * 100 + n4 * 4 + n1
      in if n1 = 4 \<or> n100 = 4 then (year - 1, 12, 31)
         else
           let leapyear = (n1 = 3 \<and> (n4 \<noteq> 24 \<or> n100 = 3));
               month = (n + 50) div 32;
               preceding = DAYS_BEFORE_MONTH ! nat month + (if month > 2 \<and> leapyear then 1 else 0)
           in if preceding > n
              then
                let month = month - 1;
                    preceding = preceding - (DAYS_IN_MONTH ! nat month + (if month = 2 \<and> leapyear then 1 else 0))
                in (year, month, n - preceding + 1)
              else (year, month, n - preceding + 1))"

definition digit :: "int \<Rightarrow> char" where
  "digit d = char_of (48 + d mod 10)"

definition pad2 :: "int \<Rightarrow> string" where
  "pad2 n = [digit (n div 10), digit n]"

definition pad4 :: "int \<Rightarrow> string" where
  "pad4 n = [digit (n div 1000), digit (n div 100), digit (n div 10), digit n]"

definition pad6 :: "int \<Rightarrow> string" where
  "pad6 n = [digit (n div 100000), digit (n div 10000), digit (n div 1000),
             digit (n div 100), digit (n div 10), digit n]"

text \<open>\<open>str(d)\<close> for a date \<open>d\<close>: \<open>YYYY-MM-DD\<close>.\<close>

definition date_str :: "int \<Rightarrow> string" where
  "date_str ordinal =
     (case ord2ymd ordinal of (y, m, d) \<Rightarrow> pad4 y @ ''-'' @ pad2 m @ ''-'' @ pad2 d)"

text \<open>\<open>t.isoformat()\<close>: the microseconds are printed only when they are not zero.\<close>

definition isoformat :: "datetime \<Rightarrow> string" where
  "isoformat t =
     (let us = t mod 86400000000;
          hh = us div 3600000000;
          mm = us div 60000000 mod 60;
          ss = us div 1000000 mod 60;
          frac = us mod 1000000
      in date_str (date t) @ ''T'' @ pad2 hh @ '':'' @ pad2 mm @ '':'' @ pad2 ss
         @ (if frac \<noteq> 0 then ''.'' @ pad6 frac else []))"

text \<open>\<open>f"{x:.2f}"\<close>, on the real value: two decimals, ties to even.\<close>

function digits :: "nat \<Rightarrow> string" where
  "digits n = (if n < 10 then [digit (int n)] else digits (n div 10) @ [digit (int n)])"
  by pat_completeness auto
termination
  by (relation "measure (\<lambda>n. n)") auto

definition round_half_even :: "real \<Rightarrow> int" where
  "round_half_even r =
     (let f = \<lfloor>r\<rfloor>; d = r - of_int f
      in if d < 1 / 2 then f
         else if d > 1 / 2 then f + 1
         else if even f then f else f + 1)"

definition format_2f :: "real \<Rightarrow> string" where
  "format_2f x =
     (let n = round_half_even (\<bar>x\<bar> * 100);
          body = digits (nat (n div 100)) @ ''.'' @ pad2 (n mod 100)
      in if x < 0 then ''-'' @ body else body)"


section \<open>The classifier\<close>

datatype JobClassification = NEW | REPOST | EXISTING

datatype JobStatus = ACTIVE | MISSING | CLOSED | REOPENED

text \<open>One entry of \<open>observations\<close>; the key \<open>note\<close> is present only on a reopening.\<close>

record observation =
  timestamp :: string
  source_identifier :: "string option"
  url :: string
  note' :: "string option"

text \<open>\<open>RawJob\<close>, without \<open>raw_data\<close>, the debugging payload that the classifier never reads.\<close>

record RawJob =
  company_id :: string
  company_name :: string
  title :: string
  location :: string
  url :: string
  source_identifier :: "string option"
  posted_date :: "datetime option"
  updated_date :: "datetime option"
  department :: "string option"
  description :: "string option"

record ClassifiedJob =
  id' :: string
  company_id :: string
  company_name :: string
  title :: string
  location :: string
  url :: string
  signature :: string
  classification :: JobClassification
  classification_reasoning :: string
  status :: JobStatus
  first_seen :: datetime
  last_seen :: datetime
  observations :: "observation list"
  source_identifier :: "string option"
  department :: "string option"
  description :: "string option"
  created_at :: "datetime option"
  updated_at :: "datetime option"

text \<open>
  The classifier's state. \<open>known_jobs\<close> is a dictionary from job id to job; it is kept
  as the list of its items in insertion order, the order in which the source iterates.
  Every key holds a job object of its own.
\<close>

record JobClassifier =
  repost_window_days :: int
  matcher :: JobMatcher
  known_jobs :: "(string \<times> ClassifiedJob) list"

definition JobClassifier_init :: "int \<Rightarrow> real \<Rightarrow> error + JobClassifier" where
  "JobClassifier_init window threshold =
     (case JobMatcher_init threshold of
        Inl e \<Rightarrow> Inl e
      | Inr m \<Rightarrow> Inr \<lparr>repost_window_days = window, matcher = m, known_jobs = []\<rparr>)"

text \<open>\<open>known_jobs.values()\<close>, each job with its position, through which it is mutated.\<close>

definition job_values :: "JobClassifier \<Rightarrow> (nat \<times> ClassifiedJob) list" where
  "job_values st = List.enumerate 0 (map snd (known_jobs st))"

text \<open>Writing a mutated job back at its position.\<close>

fun put_value :: "nat \<Rightarrow> 'v \<Rightarrow> ('k \<times> 'v) list \<Rightarrow> ('k \<times> 'v) list" where
  "put_value i v [] = []"
| "put_value 0 v ((k, old) # rest) = (k, v) # rest"
| "put_value (Suc i) v (entry # rest) = entry # put_value i v rest"

text \<open>\<open>d[k] = v\<close>: an existing key keeps its position, a new key goes last.\<close>

fun dict_set :: "'k \<Rightarrow> 'v \<Rightarrow> ('k \<times> 'v) list \<Rightarrow> ('k \<times> 'v) list" where
  "dict_set k v [] = [(k, v)]"
| "dict_set k v ((k', v') # rest) =
     (if k' = k then (k', v) # rest else (k', v') # dict_set k v rest)"

text \<open>Truth value of an optional string: \<open>None\<close> and the empty string are false.\<close>

definition truthy :: "string option \<Rightarrow> bool" where
  "truthy s = (case s of None \<Rightarrow> False | Some v \<Rightarrow> v \<noteq> [])"

definition find_by_source_id ::
  "JobClassifier \<Rightarrow> string \<Rightarrow> string option \<Rightarrow> (nat \<times> ClassifiedJob) option" where
  "find_by_source_id st cid sid =
     (if \<not> truthy sid then None
      else List.find (\<lambda>(i, job). company_id job = cid \<and> source_identifier job = sid)
             (job_values st))"

definition recent_jobs ::
  "JobClassifier \<Rightarrow> string \<Rightarrow> datetime \<Rightarrow> (nat \<times> ClassifiedJob) list" where
  "recent_jobs st cid current_time =
     (let cutoff_time = current_time - timedelta_days (repost_window_days st)
      in filter (\<lambda>(i, job). company_id job = cid \<and> last_seen job \<ge> cutoff_time
                            \<and> status job \<noteq> CLOSED)
           (job_values st))"

definition find_similar_recent_job ::
  "fuzz \<Rightarrow> JobClassifier \<Rightarrow> string \<Rightarrow> string \<Rightarrow> datetime \<Rightarrow> (nat \<times> ClassifiedJob) option" where
  "find_similar_recent_job fz st sig cid current_time =
     (let recent = recent_jobs st cid current_time
      in if recent = [] then None
         else
           let signatures = map (\<lambda>(i, job). signature job) recent;
               best_match = find_best_match fz (matcher st) sig signatures
           in if truthy best_match
              then List.find (\<lambda>(i, job). Some (signature job) = best_match) recent
              else None)"

definition closed_jobs :: "JobClassifier \<Rightarrow> string \<Rightarrow> (nat \<times> ClassifiedJob) list" where
  "closed_jobs st cid =
     filter (\<lambda>(i, job). company_id job = cid \<and> status job = CLOSED) (job_values st)"

definition find_closed_similar_job ::
  "fuzz \<Rightarrow> JobClassifier \<Rightarrow> string \<Rightarrow> string \<Rightarrow> (nat \<times> ClassifiedJob) option" where
  "find_closed_similar_job fz st sig cid =
     (let closed = closed_jobs st cid
      in if closed = [] then None
         else
           let signatures = map (\<lambda>(i, job). signature job) closed;
               best_match = find_best_match fz (matcher st) sig signatures
           in if truthy best_match
              then List.find (\<lambda>(i, job). Some (signature job) = best_match) closed
              else None)"


text \<open>The observation entry that every path appends or starts with.\<close>

definition new_observation :: "RawJob \<Rightarrow> datetime \<Rightarrow> string option \<Rightarrow> observation" where
  "new_observation raw_job current_time n =
     \<lparr>timestamp = isoformat current_time,
      observation.source_identifier = RawJob.source_identifier raw_job,
      observation.url = RawJob.url raw_job,
      note' = n\<rparr>"

text \<open>
  The mutating operations return the job they return in the source together with the
  classifier state after the call. A job found at position \<open>i\<close> of \<open>known_jobs\<close> is
  mutated in place, so the mutated job is written back at \<open>i\<close>.
\<close>

definition update_existing_job ::
  "JobClassifier \<Rightarrow> nat \<times> ClassifiedJob \<Rightarrow> RawJob \<Rightarrow> datetime \<Rightarrow> ClassifiedJob \<times> JobClassifier" where
  "update_existing_job st found raw_job current_time =
     (let i = fst found;
          existing_job = snd found;
          existing_job = existing_job\<lparr>last_seen := current_time, updated_at := Some current_time\<rparr>;
          existing_job = existing_job\<lparr>observations :=
                           observations existing_job @ [new_observation raw_job current_time None]\<rparr>;
          existing_job = (if status existing_job = MISSING
                          then existing_job\<lparr>status := ACTIVE\<rparr>
                          else existing_job)
      in (existing_job, st\<lparr>known_jobs := put_value i existing_job (known_jobs st)\<rparr>))"

definition classify_as_new ::
  "string \<Rightarrow> JobClassifier \<Rightarrow> RawJob \<Rightarrow> string \<Rightarrow> datetime \<Rightarrow> ClassifiedJob \<times> JobClassifier" where
  "classify_as_new uuid4 st raw_job sig current_time =
     (let job_id = uuid4;
          classified =
            \<lparr>id' = job_id,
             company_id = RawJob.company_id raw_job,
             company_name = RawJob.company_name raw_job,
             title = RawJob.title raw_job,
             location = RawJob.location raw_job,
             url = RawJob.url raw_job,
             signature = sig,
             classification = NEW,
             classification_reasoning = ''New job posting (no previous match found)'',
             status = ACTIVE,
             first_seen = current_time,
             last_seen = current_time,
             observations = [new_observation raw_job current_time None],
             source_identifier = RawJob.source_identifier raw_job,
             department = RawJob.department raw_job,
             description = RawJob.description raw_job,
             created_at = Some current_time,
             updated_at = Some current_time\<rparr>
      in (classified, st\<lparr>known_jobs := dict_set job_id classified (known_jobs st)\<rparr>))"

definition classify_as_repost ::
  "fuzz \<Rightarrow> string \<Rightarrow> JobClassifier \<Rightarrow> RawJob \<Rightarrow> string \<Rightarrow> ClassifiedJob \<Rightarrow> datetime
     \<Rightarrow> ClassifiedJob \<times> JobClassifier" where
  "classify_as_repost fz uuid4 st raw_job sig similar_job current_time =
     (let job_id = uuid4;
          similarity = calculate_similarity fz sig (signature similar_job);
          classified =
            \<lparr>id' = job_id,
             company_id = RawJob.company_id raw_job,
             company_name = RawJob.company_name raw_job,
             title = RawJob.title raw_job,
             location = RawJob.location raw_job,
             url = RawJob.url raw_job,
             signature = sig,
             classification = REPOST,
             classification_reasoning =
               ''Likely repost of job '' @ id' similar_job
               @ '' (similarity: '' @ format_2f similarity
               @ '', first seen: '' @ date_str (date (first_seen similar_job)) @ '')'',
             status = ACTIVE,
             first_seen = current_time,
             last_seen = current_time,
             observations = [new_observation raw_job current_time None],
             source_identifier = RawJob.source_identifier raw_job,
             department = RawJob.department raw_job,
             description = RawJob.description raw_job,
             created_at = Some current_time,
             updated_at = Some current_time\<rparr>
      in (classified, st\<lparr>known_jobs := dict_set job_id classified (known_jobs st)\<rparr>))"

definition classify_as_reopened ::
  "JobClassifier \<Rightarrow> RawJob \<Rightarrow> string \<Rightarrow> nat \<times> ClassifiedJob \<Rightarrow> datetime
     \<Rightarrow> ClassifiedJob \<times> JobClassifier" where
  "classify_as_reopened st raw_job sig found current_time =
     (let i = fst found;
          closed_job = snd found;
          closed_job = closed_job\<lparr>status := REOPENED\<rparr>;
          closed_job = closed_job\<lparr>last_seen := current_time\<rparr>;
          closed_job = closed_job\<lparr>updated_at := Some current_time\<rparr>;
          closed_job = closed_job\<lparr>url := RawJob.url raw_job\<rparr>;
          closed_job = closed_job\<lparr>source_identifier := RawJob.source_identifier raw_job\<rparr>;
          closed_job = closed_job\<lparr>observations :=
                         observations closed_job
                         @ [new_observation raw_job current_time (Some ''Job reopened'')]\<rparr>;
          closed_job = closed_job\<lparr>classification_reasoning :=
                         ''Job reopened (was closed on '' @ date_str (date (last_seen closed_job))
                         @ '', originally first seen '' @ date_str (date (first_seen closed_job))
                         @ '')''\<rparr>
      in (closed_job, st\<lparr>known_jobs := put_value i closed_job (known_jobs st)\<rparr>))"

text \<open>
  The clock (\<open>datetime.utcnow()\<close>) and the fresh identifier (\<open>str(uuid.uuid4())\<close>)
  are inputs of the model. \<open>time_or_now\<close> is the opening of the three public operations:
  \<open>if current_time is None: current_time = datetime.utcnow()\<close>.
\<close>

definition time_or_now :: "datetime \<Rightarrow> datetime option \<Rightarrow> datetime" where
  "time_or_now utcnow current_time = (case current_time of None \<Rightarrow> utcnow | Some t \<Rightarrow> t)"

text \<open>The signature that \<open>classify_job\<close> computes from the raw observation.\<close>

definition raw_signature :: "RawJob \<Rightarrow> string" where
  "raw_signature raw_job =
     create_signature (RawJob.company_id raw_job) (RawJob.title raw_job) (RawJob.location raw_job)"

definition classify_job ::
  "fuzz \<Rightarrow> datetime \<Rightarrow> string \<Rightarrow> JobClassifier \<Rightarrow> RawJob \<Rightarrow> datetime option
     \<Rightarrow> ClassifiedJob \<times> JobClassifier" where
  "classify_job fz utcnow uuid4 st raw_job current_time_opt =
     (let current_time = time_or_now utcnow current_time_opt;
          sig = raw_signature raw_job
      in case find_by_source_id st (RawJob.company_id raw_job) (RawJob.source_identifier raw_job) of
           Some existing_job \<Rightarrow> update_existing_job st existing_job raw_job current_time
         | None \<Rightarrow>
            (case find_similar_recent_job fz st sig (RawJob.company_id raw_job) current_time of
               Some similar_job \<Rightarrow>
                 classify_as_repost fz uuid4 st raw_job sig (snd similar_job) current_time
             | None \<Rightarrow>
                (case find_closed_similar_job fz st sig (RawJob.company_id raw_job) of
                   Some closed_job \<Rightarrow> classify_as_reopened st raw_job sig closed_job current_time
                 | None \<Rightarrow> classify_as_new uuid4 st raw_job sig current_time)))"

text \<open>The sweep of \<open>mark_missing_jobs\<close> over \<open>known_jobs.items()\<close>, with its count.\<close>

fun mark_missing_loop ::
  "string list \<Rightarrow> datetime \<Rightarrow> (string \<times> ClassifiedJob) list
     \<Rightarrow> int \<times> (string \<times> ClassifiedJob) list" where
  "mark_missing_loop observed_job_ids current_time [] = (0, [])"
| "mark_missing_loop observed_job_ids current_time ((job_id, job) # rest) =
     (let swept = mark_missing_loop observed_job_ids current_time rest
      in if job_id \<notin> set observed_job_ids \<and> status job = ACTIVE
         then (fst swept + 1,
               (job_id, job\<lparr>status := MISSING, updated_at := Some current_time\<rparr>) # snd swept)
         else (fst swept, (job_id, job) # snd swept))"

definition mark_missing_jobs ::
  "datetime \<Rightarrow> JobClassifier \<Rightarrow> string list \<Rightarrow> datetime option \<Rightarrow> int \<times> JobClassifier" where
  "mark_missing_jobs utcnow st observed_job_ids current_time_opt =
     (let current_time = time_or_now utcnow current_time_opt;
          swept = mark_missing_loop observed_job_ids current_time (known_jobs st)
      in (fst swept, st\<lparr>known_jobs := snd swept\<rparr>))"

text \<open>The sweep of \<open>close_old_missing_jobs\<close> over \<open>known_jobs.values()\<close>.\<close>

fun close_old_loop ::
  "datetime \<Rightarrow> datetime \<Rightarrow> (string \<times> ClassifiedJob) list
     \<Rightarrow> int \<times> (string \<times> ClassifiedJob) list" where
  "close_old_loop cutoff_time current_time [] = (0, [])"
| "close_old_loop cutoff_time current_time ((job_id, job) # rest) =
     (let swept = close_old_loop cutoff_time current_time rest
      in if status job = MISSING \<and> last_seen job < cutoff_time
         then (fst swept + 1,
               (job_id, job\<lparr>status := CLOSED, updated_at := Some current_time\<rparr>) # snd swept)
         else (fst swept, (job_id, job) # snd swept))"

definition close_old_missing_jobs ::
  "datetime \<Rightarrow> JobClassifier \<Rightarrow> int \<Rightarrow> datetime option \<Rightarrow> int \<times> JobClassifier" where
  "close_old_missing_jobs utcnow st timeout_days current_time_opt =
     (let current_time = time_or_now utcnow current_time_opt;
          cutoff_time = current_time - timedelta_days timeout_days;
          swept = close_old_loop cutoff_time current_time (known_jobs st)
      in (fst swept, st\<lparr>known_jobs := snd swept\<rparr>))"


section \<open>Notions used in the statements\<close>

text \<open>The classification of every tracked job, by key, in dictionary order.\<close>

definition classifications :: "JobClassifier \<Rightarrow> (string \<times> JobClassification) list" where
  "classifications st = map (\<lambda>(k, job). (k, classification job)) (known_jobs st)"

text \<open>
  What the statements below assume of the library metrics: each lies between 0 and 100,
  \<open>ratio\<close> and \<open>token_sort_ratio\<close> give 100 on identical inputs, and
  \<open>token_set_ratio\<close> gives 100 on identical inputs that hold at least one token.
\<close>

definition metric_contract :: "fuzz \<Rightarrow> bool" where
  "metric_contract fz =
     ((\<forall>a b. 0 \<le> ratio fz a b \<and> ratio fz a b \<le> 100)
      \<and> (\<forall>a b. 0 \<le> token_sort_ratio fz a b \<and> token_sort_ratio fz a b \<le> 100)
      \<and> (\<forall>a b. 0 \<le> token_set_ratio fz a b \<and> token_set_ratio fz a b \<le> 100)
      \<and> (\<forall>a. ratio fz a a = 100)
      \<and> (\<forall>a. token_sort_ratio fz a a = 100)
      \<and> (\<forall>a. split_ws a \<noteq> [] \<longrightarrow> token_set_ratio fz a a = 100))"

text \<open>\<open>token_set_ratio\<close> is 0 as soon as one input holds no token.\<close>

definition token_set_blank :: "fuzz \<Rightarrow> bool" where
  "token_set_blank fz =
     (\<forall>a b. split_ws a = [] \<or> split_ws b = [] \<longrightarrow> token_set_ratio fz a b = 0)"


section \<open>Example inputs\<close>

text \<open>2024-01-15T12:00:00.\<close>

definition jan15 :: datetime where
  "jan15 = 63840916800000000"

definition raw_engineer :: RawJob where
  "raw_engineer =
     \<lparr>RawJob.company_id = ''acme'',
      RawJob.company_name = ''Acme Corp'',
      RawJob.title = ''Engineer'',
      RawJob.location = ''Remote'',
      RawJob.url = ''https://acme.com/jobs/1'',
      RawJob.source_identifier = Some ''job-1'',
      posted_date = None,
      updated_date = None,
      RawJob.department = None,
      RawJob.description = None\<rparr>"

text \<open>The job that \<open>classify_job\<close> tracks for \<open>raw_engineer\<close> seen at \<open>jan15\<close>.\<close>

definition tracked_engineer :: ClassifiedJob where
  "tracked_engineer =
     \<lparr>id' = ''J1'',
      company_id = ''acme'',
      company_name = ''Acme Corp'',
      title = ''Engineer'',
      location = ''Remote'',
      url = ''https://acme.com/jobs/1'',
      signature = ''acme|engineer|remote'',
      classification = NEW,
      classification_reasoning = ''New job posting (no previous match found)'',
      status = ACTIVE,
      first_seen = jan15,
      last_seen = jan15,
      observations =
        [\<lparr>timestamp = ''2024-01-15T12:00:00'',
          observation.source_identifier = Some ''job-1'',
          observation.url = ''https://acme.com/jobs/1'',
          note' = None\<rparr>],
      source_identifier = Some ''job-1'',
      department = None,
      description = None,
      created_at = Some jan15,
      updated_at = Some jan15\<rparr>"

definition empty_classifier :: JobClassifier where
  "empty_classifier =
     \<lparr>repost_window_days = 30, matcher = \<lparr>similarity_threshold = 0.9\<rparr>, known_jobs = []\<rparr>"

text \<open>A classifier that tracks the one job, in a given lifecycle status.\<close>

definition tracking :: "JobStatus \<Rightarrow> JobClassifier" where
  "tracking s = empty_classifier\<lparr>known_jobs := [(''J1'', tracked_engineer\<lparr>status := s\<rparr>)]\<rparr>"

text \<open>The same posting under a new source identifier, and with a slightly different title.\<close>

definition raw_engineer_again :: RawJob where
  "raw_engineer_again = raw_engineer\<lparr>RawJob.source_identifier := Some ''job-2''\<rparr>"

definition raw_engineers :: RawJob where
  "raw_engineers =
     raw_engineer\<lparr>RawJob.title := ''Engineers'',
                  RawJob.url := ''https://acme.com/jobs/2'',
                  RawJob.source_identifier := Some ''job-2''\<rparr>"


text \<open>A closed job whose stored source identifier is the empty string, and its re-observation.\<close>

definition tracking_blank_id :: JobClassifier where
  "tracking_blank_id =
     empty_classifier\<lparr>known_jobs :=
       [(''J1'', tracked_engineer\<lparr>status := CLOSED, source_identifier := Some ''''\<rparr>)]\<rparr>"

definition raw_engineer_blank_id :: RawJob where
  "raw_engineer_blank_id = raw_engineer\<lparr>RawJob.source_identifier := Some ''''\<rparr>"

text \<open>Two tracked jobs with the same company and source identifier, the second one closed.\<close>

definition tracking_twice :: JobClassifier where
  "tracking_twice =
     empty_classifier\<lparr>known_jobs :=
       [(''J0'', tracked_engineer\<lparr>id' := ''J0''\<rparr>),
        (''J1'', tracked_engineer\<lparr>status := CLOSED\<rparr>)]\<rparr>"


section \<open>Facts about the dictionary and the finders\<close>

lemma job_values_member:
  "(i, job) \<in> set (job_values st) \<Longrightarrow> i < length (known_jobs st) \<and> snd (known_jobs st ! i) = job"
  by (auto simp: job_values_def in_set_enumerate_eq)

lemma find_member: "List.find P xs = Some x \<Longrightarrow> x \<in> set xs \<and> P x"
  by (auto simp: find_Some_iff)

lemma find_by_source_id_member:
  "find_by_source_id st cid sid = Some f \<Longrightarrow> f \<in> set (job_values st)"
  by (auto simp: find_by_source_id_def dest: find_member split: if_splits)

lemma find_by_source_id_finds:
  assumes "(i, job) \<in> set (job_values st)" and "company_id job = cid"
    and "source_identifier job = sid" and "truthy sid"
  shows "find_by_source_id st cid sid \<noteq> None"
proof -
  have "List.find (\<lambda>(i, job). company_id job = cid \<and> source_identifier job = sid) (job_values st) \<noteq> None"
    using assms(1-3) by (auto simp: find_None_iff)
  with assms(4) show ?thesis by (simp add: find_by_source_id_def)
qed

lemma find_by_source_id_first:
  assumes "(i, job) \<in> set (job_values st)" and "company_id job = cid"
    and "source_identifier job = sid" and "truthy sid"
    and "\<forall>(n, other) \<in> set (job_values st).
           n < i \<longrightarrow> \<not> (company_id other = cid \<and> source_identifier other = sid)"
  shows "find_by_source_id st cid sid = Some (i, job)"
proof -
  define P where "P = (\<lambda>x :: nat \<times> ClassifiedJob.
                         company_id (snd x) = cid \<and> source_identifier (snd x) = sid)"
  define xs where "xs = job_values st"
  have P_eq: "(\<lambda>(i, job). company_id job = cid \<and> source_identifier job = sid) = P"
    by (simp add: P_def split_def)
  have nth: "xs ! n = (n, snd (known_jobs st ! n))" if "n < length xs" for n
    using that by (simp add: xs_def job_values_def nth_enumerate_eq)
  have i: "i < length xs"
    using assms(1) job_values_member [of i job st] by (simp add: xs_def job_values_def)
  have job: "snd (known_jobs st ! i) = job"
    using assms(1) job_values_member [of i job st] by simp
  have at_i: "xs ! i = (i, job)"
    using nth [OF i] job by simp
  have here: "P (xs ! i)"
    using assms(2,3) by (simp add: at_i P_def)
  have early: "\<forall>x \<in> set xs. fst x < i \<longrightarrow> \<not> P x"
    using assms(5) by (simp add: xs_def P_def split_def)
  have before: "\<not> P (xs ! n)" if "n < i" for n
  proof -
    from that i have n: "n < length xs" by simp
    then have "xs ! n \<in> set xs" by simp
    moreover have "fst (xs ! n) < i" using nth [OF n] that by simp
    ultimately show ?thesis using early by blast
  qed
  have "\<exists>k < length xs. P (xs ! k) \<and> (i, job) = xs ! k \<and> (\<forall>n < k. \<not> P (xs ! n))"
    using i here at_i before by (intro exI [of _ i]) simp
  then have "List.find P xs = Some (i, job)"
    by (simp only: find_Some_iff)
  with assms(4) show ?thesis
    by (simp add: find_by_source_id_def P_eq xs_def)
qed

lemma closed_jobs_member:
  "f \<in> set (closed_jobs st cid) \<Longrightarrow> f \<in> set (job_values st) \<and> status (snd f) = CLOSED"
  by (auto simp: closed_jobs_def)

lemma find_closed_similar_job_member:
  "find_closed_similar_job fz st sig cid = Some f \<Longrightarrow> f \<in> set (closed_jobs st cid)"
  by (auto simp: find_closed_similar_job_def Let_def dest: find_member split: if_splits)

lemma put_value_nth:
  "i < length xs \<Longrightarrow> snd (put_value i v xs ! i) = v"
  by (induction i v xs rule: put_value.induct) auto

lemma put_value_nth_other:
  "j \<noteq> i \<Longrightarrow> put_value i v xs ! j = xs ! j"
proof (induction i v xs arbitrary: j rule: put_value.induct)
  case (1 i v)
  then show ?case by simp
next
  case (2 v k old rest)
  then show ?case by (cases j) auto
next
  case (3 i v entry rest)
  then show ?case by (cases j) auto
qed

lemma put_value_classification:
  "i < length xs \<Longrightarrow> classification v = classification (snd (xs ! i)) \<Longrightarrow>
   map (\<lambda>(k, job). (k, classification job)) (put_value i v xs)
     = map (\<lambda>(k, job). (k, classification job)) xs"
  by (induction i v xs rule: put_value.induct) auto

lemma update_existing_job_classification:
  assumes "f \<in> set (job_values st)"
  shows "classifications (snd (update_existing_job st f raw t)) = classifications st"
proof -
  obtain i job where f: "f = (i, job)" by (cases f)
  with assms have "i < length (known_jobs st)" and "snd (known_jobs st ! i) = job"
    using job_values_member by blast+
  then show ?thesis
    by (simp add: f update_existing_job_def classifications_def Let_def put_value_classification)
qed

lemma classify_as_reopened_classification:
  assumes "f \<in> set (job_values st)"
  shows "classifications (snd (classify_as_reopened st raw sig f t)) = classifications st"
proof -
  obtain i job where f: "f = (i, job)" by (cases f)
  with assms have "i < length (known_jobs st)" and "snd (known_jobs st ! i) = job"
    using job_values_member by blast+
  then show ?thesis
    by (simp add: f classify_as_reopened_def classifications_def Let_def put_value_classification)
qed

lemma mark_missing_loop_classification:
  "map (\<lambda>(k, job). (k, classification job)) (snd (mark_missing_loop obs t xs))
     = map (\<lambda>(k, job). (k, classification job)) xs"
  by (induction obs t xs rule: mark_missing_loop.induct) (auto simp: Let_def)

lemma close_old_loop_classification:
  "map (\<lambda>(k, job). (k, classification job)) (snd (close_old_loop c t xs))
     = map (\<lambda>(k, job). (k, classification job)) xs"
  by (induction c t xs rule: close_old_loop.induct) (auto simp: Let_def)

lemma mark_missing_loop_again:
  "mark_missing_loop obs t2 (snd (mark_missing_loop obs t1 xs))
     = (0, snd (mark_missing_loop obs t1 xs))"
  by (induction obs t1 xs rule: mark_missing_loop.induct) (auto simp: Let_def)

text \<open>What the exact-identifier path returns and stores.\<close>

lemma classify_job_exact:
  assumes "find_by_source_id st (RawJob.company_id raw_job) (RawJob.source_identifier raw_job)
             = Some (i, job)"
  shows "fst (classify_job fz utcnow uuid4 st raw_job t)
           = job\<lparr>last_seen := time_or_now utcnow t,
                 updated_at := Some (time_or_now utcnow t),
                 observations := observations job
                   @ [new_observation raw_job (time_or_now utcnow t) None],
                 status := (if status job = MISSING then ACTIVE else status job)\<rparr>"
    and "known_jobs (snd (classify_job fz utcnow uuid4 st raw_job t))
           = put_value i (fst (classify_job fz utcnow uuid4 st raw_job t)) (known_jobs st)"
  using assms by (simp_all add: classify_job_def update_existing_job_def Let_def)

text \<open>What the reopening path returns and stores.\<close>

lemma classify_job_reopening:
  assumes "find_by_source_id st (RawJob.company_id raw_job) (RawJob.source_identifier raw_job) = None"
    and "find_similar_recent_job fz st (raw_signature raw_job) (RawJob.company_id raw_job)
           (time_or_now utcnow t) = None"
    and "find_closed_similar_job fz st (raw_signature raw_job) (RawJob.company_id raw_job)
           = Some (i, job)"
  shows "fst (classify_job fz utcnow uuid4 st raw_job t)
           = job\<lparr>status := REOPENED,
                 last_seen := time_or_now utcnow t,
                 updated_at := Some (time_or_now utcnow t),
                 url := RawJob.url raw_job,
                 source_identifier := RawJob.source_identifier raw_job,
                 observations := observations job
                   @ [new_observation raw_job (time_or_now utcnow t) (Some ''Job reopened'')],
                 classification_reasoning :=
                   ''Job reopened (was closed on '' @ date_str (date (time_or_now utcnow t))
                   @ '', originally first seen '' @ date_str (date (first_seen job)) @ '')''\<rparr>"
    and "known_jobs (snd (classify_job fz utcnow uuid4 st raw_job t))
           = put_value i (fst (classify_job fz utcnow uuid4 st raw_job t)) (known_jobs st)"
  using assms by (simp_all add: classify_job_def classify_as_reopened_def Let_def)


section \<open>Facts about the model of the library metrics\<close>

lemma lcs_le_left: "lcs a b \<le> length a"
  by (induction a b rule: lcs.induct) auto

lemma lcs_le_right: "lcs a b \<le> length b"
  by (induction a b rule: lcs.induct) auto

lemma lcs_same: "lcs a a = length a"
  by (induction a) auto

lemma indel_distance_le: "indel_distance a b \<le> length a + length b"
  by (simp add: indel_distance_def)

lemma indel_distance_same: "indel_distance a a = 0"
  by (simp add: indel_distance_def lcs_same)

lemma norm_distance_bounds:
  assumes "d \<le> n"
  shows "0 \<le> norm_distance d n" and "norm_distance d n \<le> 100"
proof -
  have "n > 0 \<Longrightarrow> 100 * real d / real n \<le> 100"
    using assms by (simp add: pos_divide_le_eq)
  then show "0 \<le> norm_distance d n" by (simp add: norm_distance_def)
  show "norm_distance d n \<le> 100" by (simp add: norm_distance_def)
qed

lemma norm_distance_zero: "norm_distance 0 n = 100"
  by (simp add: norm_distance_def)

lemma rf_ratio_bounds: "0 \<le> rf_ratio a b" "rf_ratio a b \<le> 100"
  by (simp_all add: rf_ratio_def norm_distance_bounds indel_distance_le)

lemma rf_ratio_same: "rf_ratio a a = 100"
  by (simp add: rf_ratio_def indel_distance_same norm_distance_zero)

lemma rf_token_sort_ratio_bounds: "0 \<le> rf_token_sort_ratio a b" "rf_token_sort_ratio a b \<le> 100"
  by (simp_all add: rf_token_sort_ratio_def rf_ratio_bounds)

lemma rf_token_sort_ratio_same: "rf_token_sort_ratio a a = 100"
  by (simp add: rf_token_sort_ratio_def rf_ratio_same)

lemma rf_token_set_ratio_bounds: "0 \<le> rf_token_set_ratio a b \<and> rf_token_set_ratio a b \<le> 100"
  unfolding rf_token_set_ratio_def Let_def
  by (auto simp: max_def intro!: norm_distance_bounds order_trans [OF indel_distance_le])

lemma rf_token_set_ratio_same:
  assumes "split_ws a \<noteq> []"
  shows "rf_token_set_ratio a a = 100"
proof -
  have "remdups (split_ws a) \<noteq> []" using assms by simp
  then show ?thesis
    by (simp add: rf_token_set_ratio_def Let_def)
qed

lemma rf_token_set_ratio_blank:
  "split_ws a = [] \<or> split_ws b = [] \<Longrightarrow> rf_token_set_ratio a b = 0"
  by (auto simp: rf_token_set_ratio_def Let_def)

lemma rapidfuzz_metric_contract: "metric_contract rapidfuzz"
  unfolding metric_contract_def rapidfuzz_def
  by (simp add: rf_ratio_bounds rf_ratio_same rf_token_sort_ratio_bounds rf_token_sort_ratio_same
      rf_token_set_ratio_bounds rf_token_set_ratio_same)

lemma rapidfuzz_token_set_blank: "token_set_blank rapidfuzz"
  unfolding token_set_blank_def rapidfuzz_def
  by (simp add: rf_token_set_ratio_blank)


section \<open>Facts about the matcher\<close>

lemma calculate_similarity_bounds:
  assumes "metric_contract fz"
  shows "0 \<le> calculate_similarity fz a b" and "calculate_similarity fz a b \<le> 1"
proof -
  have r: "\<And>x y. 0 \<le> ratio fz x y \<and> ratio fz x y \<le> 100"
    and t: "\<And>x y. 0 \<le> token_sort_ratio fz x y \<and> token_sort_ratio fz x y \<le> 100"
    and u: "\<And>x y. 0 \<le> token_set_ratio fz x y \<and> token_set_ratio fz x y \<le> 100"
    using assms by (simp_all add: metric_contract_def)
  define p1 where "p1 = split_on CHR ''|'' a"
  define p2 where "p2 = split_on CHR ''|'' b"
  have eq: "calculate_similarity fz a b =
     (if length p1 \<noteq> 3 \<or> length p2 \<noteq> 3 then token_set_ratio fz a b / 100
      else (0.10 * ratio fz (p1 ! 0) (p2 ! 0) + 0.60 * token_sort_ratio fz (p1 ! 1) (p2 ! 1)
              + 0.30 * ratio fz (p1 ! 2) (p2 ! 2)) / 100)"
    by (simp add: calculate_similarity_def Let_def p1_def p2_def)
  show "0 \<le> calculate_similarity fz a b"
    using r [of "p1 ! 0" "p2 ! 0"] r [of "p1 ! 2" "p2 ! 2"] t [of "p1 ! 1" "p2 ! 1"] u [of a b]
    by (simp add: eq)
  show "calculate_similarity fz a b \<le> 1"
    using r [of "p1 ! 0" "p2 ! 0"] r [of "p1 ! 2" "p2 ! 2"] t [of "p1 ! 1" "p2 ! 1"] u [of a b]
    by (simp add: eq)
qed

lemma calculate_similarity_same:
  assumes "metric_contract fz" and "split_ws s \<noteq> []"
  shows "calculate_similarity fz s s = 1"
  using assms by (simp add: calculate_similarity_def Let_def metric_contract_def)

lemma split_ws_acc_empty:
  "split_ws_acc cur s = [] \<longleftrightarrow> cur = [] \<and> (\<forall>c \<in> set s. py_isspace c)"
  by (induction s arbitrary: cur) auto

lemma split_ws_nonempty: "c \<in> set s \<Longrightarrow> \<not> py_isspace c \<Longrightarrow> split_ws s \<noteq> []"
  by (auto simp: split_ws_def split_ws_acc_empty)

lemma create_signature_tokens: "split_ws (create_signature cid ttl loc) \<noteq> []"
proof -
  have "\<not> py_isspace CHR ''|''" by code_simp
  moreover have "CHR ''|'' \<in> set (create_signature cid ttl loc)"
    by (simp add: create_signature_def)
  ultimately show ?thesis by (rule split_ws_nonempty [rotated])
qed

lemma blank_signature_score:
  assumes "token_set_blank fz"
  shows "calculate_similarity fz s [] = 0"
  using assms by (simp add: calculate_similarity_def Let_def token_set_blank_def split_ws_def)



lemma best_match_loop_keep:
  "\<forall>c \<in> set cs. calculate_similarity fz q c \<le> s \<Longrightarrow> best_match_loop fz q cs (b, s) = (b, s)"
  by (induction cs) (auto simp: Let_def)

lemma best_match_loop_first_max:
  assumes "c \<in> set cs"
    and "\<forall>x \<in> set cs. calculate_similarity fz q x \<le> calculate_similarity fz q c"
    and "s < calculate_similarity fz q c"
  shows "best_match_loop fz q cs (b, s)
           = (List.find (\<lambda>x. calculate_similarity fz q x = calculate_similarity fz q c) cs,
              calculate_similarity fz q c)"
  using assms
proof (induction cs arbitrary: b s)
  case Nil
  then show ?case by simp
next
  case (Cons x rest)
  let ?M = "calculate_similarity fz q c"
  show ?case
  proof (cases "calculate_similarity fz q x = ?M")
    case True
    have "best_match_loop fz q rest (Some x, ?M) = (Some x, ?M)"
      using Cons.prems(2) by (intro best_match_loop_keep) simp
    with True Cons.prems(3) show ?thesis by (simp add: Let_def)
  next
    case False
    with Cons.prems have c: "c \<in> set rest" and lt: "calculate_similarity fz q x < ?M"
      and le: "\<forall>x \<in> set rest. calculate_similarity fz q x \<le> ?M"
      by (auto simp: less_le)
    show ?thesis
    proof (cases "calculate_similarity fz q x > s")
      case True
      with False Cons.IH [OF c le lt, of "Some x"] show ?thesis by (simp add: Let_def)
    next
      case gt: False
      with False Cons.IH [OF c le Cons.prems(3), of b] show ?thesis by (simp add: Let_def)
    qed
  qed
qed

lemma find_best_match_first_max:
  assumes "c \<in> set candidates"
    and "\<forall>x \<in> set candidates. calculate_similarity fz q x \<le> calculate_similarity fz q c"
    and "0 < calculate_similarity fz q c"
    and "similarity_threshold m \<le> calculate_similarity fz q c"
  shows "find_best_match fz m q candidates
           = List.find (\<lambda>x. calculate_similarity fz q x = calculate_similarity fz q c) candidates"
proof -
  have "candidates \<noteq> []" using assms(1) by auto
  then show ?thesis
    using assms(4) by (simp add: find_best_match_def Let_def best_match_loop_first_max [OF assms(1-3)])
qed

text \<open>
  An observation whose signature some candidate of the recent window carries is matched,
  provided the threshold is at most 1.
\<close>

lemma find_similar_recent_job_identical:
  assumes "metric_contract fz" and "token_set_blank fz"
    and "similarity_threshold (matcher st) \<le> 1"
    and "(i, job) \<in> set (recent_jobs st cid current_time)"
    and "signature job = sig" and "split_ws sig \<noteq> []"
  shows "find_similar_recent_job fz st sig cid current_time \<noteq> None"
proof -
  define recent where "recent = recent_jobs st cid current_time"
  define sigs where "sigs = map (\<lambda>(i, job). signature job) recent"
  have ne: "recent \<noteq> []" using assms(4) by (auto simp: recent_def)
  have mem: "sig \<in> set sigs"
    using assms(4,5) by (force simp: sigs_def recent_def)
  have one: "calculate_similarity fz sig sig = 1"
    using assms(1,6) by (rule calculate_similarity_same)
  have best: "find_best_match fz (matcher st) sig sigs
                = List.find (\<lambda>x. calculate_similarity fz sig x = calculate_similarity fz sig sig) sigs"
    using mem assms(3) calculate_similarity_bounds(2) [OF assms(1)]
    by (intro find_best_match_first_max) (simp_all add: one)
  have "List.find (\<lambda>x. calculate_similarity fz sig x = calculate_similarity fz sig sig) sigs \<noteq> None"
    using mem by (auto simp: find_None_iff)
  then obtain c0 where c0: "find_best_match fz (matcher st) sig sigs = Some c0"
    using best by auto
  then have c0_mem: "c0 \<in> set sigs" and c0_score: "calculate_similarity fz sig c0 = 1"
    using best one by (auto dest: find_member)
  have "c0 \<noteq> []"
    using c0_score blank_signature_score [OF assms(2), of sig] by auto
  then have tr: "truthy (Some c0)" by (simp add: truthy_def)
  have "List.find (\<lambda>(i, job). Some (signature job) = Some c0) recent \<noteq> None"
    using c0_mem by (auto simp: find_None_iff sigs_def)
  then show ?thesis
    using ne tr c0
    by (simp add: find_similar_recent_job_def Let_def recent_def [symmetric] sigs_def [symmetric])
qed


section \<open>The claims\<close>

text \<open>
  C1 (as the code has it). The window boundary is inclusive: a tracked job of the
  observation's company whose status is not Closed and whose \<open>last_seen\<close> is exactly
  \<open>current_time - repost_window_days\<close> is in the recent-similar candidate set of
  \<open>classify_job\<close> (the test is \<open>last_seen >= cutoff\<close>), and a job last seen strictly
  before that instant is not. So an observation with the same signature that arrives
  exactly \<open>repost_window_days\<close> after the job was last seen, and that no tracked job
  matches by identifier, is classified Repost, not New (for a threshold of at most 1 and
  metrics that meet their contract).
\<close>

theorem window_boundary_inclusive:
  assumes "(i, job) \<in> set (job_values st)"
    and "company_id job = RawJob.company_id raw_job"
    and "status job \<noteq> CLOSED"
    and "last_seen job = time_or_now utcnow t - timedelta_days (repost_window_days st)"
  shows "(i, job) \<in> set (recent_jobs st (RawJob.company_id raw_job) (time_or_now utcnow t))
         \<and> (last_seen other < time_or_now utcnow t - timedelta_days (repost_window_days st)
            \<longrightarrow> (n, other) \<notin> set (recent_jobs st (RawJob.company_id raw_job)
                                  (time_or_now utcnow t)))
         \<and> (metric_contract fz \<and> token_set_blank fz
              \<and> similarity_threshold (matcher st) \<le> 1
              \<and> signature job = raw_signature raw_job
              \<and> find_by_source_id st (RawJob.company_id raw_job)
                    (RawJob.source_identifier raw_job) = None
            \<longrightarrow> classification (fst (classify_job fz utcnow uuid4 st raw_job t)) = REPOST)"
proof (intro conjI impI)
  show "(i, job) \<in> set (recent_jobs st (RawJob.company_id raw_job) (time_or_now utcnow t))"
    using assms by (simp add: recent_jobs_def Let_def)
next
  assume "last_seen other < time_or_now utcnow t - timedelta_days (repost_window_days st)"
  then show "(n, other) \<notin> set (recent_jobs st (RawJob.company_id raw_job) (time_or_now utcnow t))"
    by (simp add: recent_jobs_def Let_def)
next
  have recent: "(i, job) \<in> set (recent_jobs st (RawJob.company_id raw_job) (time_or_now utcnow t))"
    using assms by (simp add: recent_jobs_def Let_def)
  assume a: "metric_contract fz \<and> token_set_blank fz
              \<and> similarity_threshold (matcher st) \<le> 1
              \<and> signature job = raw_signature raw_job
              \<and> find_by_source_id st (RawJob.company_id raw_job)
                    (RawJob.source_identifier raw_job) = None"
  have "split_ws (raw_signature raw_job) \<noteq> []"
    by (simp add: raw_signature_def create_signature_tokens)
  with a recent
  have "find_similar_recent_job fz st (raw_signature raw_job) (RawJob.company_id raw_job)
          (time_or_now utcnow t) \<noteq> None"
    by (intro find_similar_recent_job_identical [of fz st i job]) simp_all
  then obtain similar where
    "find_similar_recent_job fz st (raw_signature raw_job) (RawJob.company_id raw_job)
          (time_or_now utcnow t) = Some similar"
    by auto
  with a show "classification (fst (classify_job fz utcnow uuid4 st raw_job t)) = REPOST"
    by (simp add: classify_job_def classify_as_repost_def Let_def)
qed

theorem window_boundary_inclusive_witness:
  "(0, tracked_engineer) \<in> set (job_values (tracking ACTIVE))
   \<and> company_id tracked_engineer = RawJob.company_id raw_engineer_again
   \<and> status tracked_engineer \<noteq> CLOSED
   \<and> last_seen tracked_engineer
       = time_or_now 0 (Some (jan15 + timedelta_days 30))
         - timedelta_days (repost_window_days (tracking ACTIVE))
   \<and> last_seen (tracked_engineer\<lparr>last_seen := jan15 - 1\<rparr>)
       < time_or_now 0 (Some (jan15 + timedelta_days 30))
         - timedelta_days (repost_window_days (tracking ACTIVE))
   \<and> metric_contract rapidfuzz \<and> token_set_blank rapidfuzz
   \<and> similarity_threshold (matcher (tracking ACTIVE)) \<le> 1
   \<and> signature tracked_engineer = raw_signature raw_engineer_again
   \<and> find_by_source_id (tracking ACTIVE) (RawJob.company_id raw_engineer_again)
        (RawJob.source_identifier raw_engineer_again) = None
   \<and> (0, tracked_engineer) \<in> set (recent_jobs (tracking ACTIVE)
        (RawJob.company_id raw_engineer_again) (time_or_now 0 (Some (jan15 + timedelta_days 30))))
   \<and> (0, tracked_engineer\<lparr>last_seen := jan15 - 1\<rparr>) \<notin> set (recent_jobs (tracking ACTIVE)
        (RawJob.company_id raw_engineer_again) (time_or_now 0 (Some (jan15 + timedelta_days 30))))
   \<and> classification (fst (classify_job rapidfuzz 0 ''J2'' (tracking ACTIVE) raw_engineer_again
        (Some (jan15 + timedelta_days 30)))) = REPOST"
proof -
  have h1: "(0, tracked_engineer) \<in> set (job_values (tracking ACTIVE))" by code_simp
  have h2: "company_id tracked_engineer = RawJob.company_id raw_engineer_again" by code_simp
  have h3: "status tracked_engineer \<noteq> CLOSED" by code_simp
  have h4: "last_seen tracked_engineer
       = time_or_now 0 (Some (jan15 + timedelta_days 30))
         - timedelta_days (repost_window_days (tracking ACTIVE))" by code_simp
  have h5: "similarity_threshold (matcher (tracking ACTIVE)) \<le> 1" by code_simp
  have h6: "signature tracked_engineer = raw_signature raw_engineer_again" by code_simp
  have h7: "find_by_source_id (tracking ACTIVE) (RawJob.company_id raw_engineer_again)
        (RawJob.source_identifier raw_engineer_again) = None" by code_simp
  have h8: "last_seen (tracked_engineer\<lparr>last_seen := jan15 - 1\<rparr>)
       < time_or_now 0 (Some (jan15 + timedelta_days 30))
         - timedelta_days (repost_window_days (tracking ACTIVE))" by code_simp
  note c = rapidfuzz_metric_contract
  note z = rapidfuzz_token_set_blank
  from window_boundary_inclusive [OF h1 h2 h3 h4,
      of "tracked_engineer\<lparr>last_seen := jan15 - 1\<rparr>" 0 rapidfuzz "''J2''"]
    h5 h6 h7 h8 c z
  have "(0, tracked_engineer) \<in> set (recent_jobs (tracking ACTIVE)
        (RawJob.company_id raw_engineer_again) (time_or_now 0 (Some (jan15 + timedelta_days 30))))
   \<and> (0, tracked_engineer\<lparr>last_seen := jan15 - 1\<rparr>) \<notin> set (recent_jobs (tracking ACTIVE)
        (RawJob.company_id raw_engineer_again) (time_or_now 0 (Some (jan15 + timedelta_days 30))))
   \<and> classification (fst (classify_job rapidfuzz 0 ''J2'' (tracking ACTIVE) raw_engineer_again
        (Some (jan15 + timedelta_days 30)))) = REPOST"
    by blast
  with h1 h2 h3 h4 h5 h6 h7 h8 c z show ?thesis by blast
qed

text \<open>
  C1 (as stated) fails: with a window of 30 days, a job last seen on 2024-01-15 at noon is
  in the candidate set of an observation made on 2024-02-14 at noon, exactly 30 days
  later, and that observation is classified Repost.
\<close>

theorem window_boundary_counterexample:
  "repost_window_days (tracking ACTIVE) = 30
   \<and> status (snd (known_jobs (tracking ACTIVE) ! 0)) = ACTIVE
   \<and> last_seen (snd (known_jobs (tracking ACTIVE) ! 0))
       = (jan15 + timedelta_days 30) - timedelta_days (repost_window_days (tracking ACTIVE))
   \<and> recent_jobs (tracking ACTIVE) (RawJob.company_id raw_engineer_again)
        (jan15 + timedelta_days 30) = [(0, snd (known_jobs (tracking ACTIVE) ! 0))]
   \<and> classification (fst (classify_job rapidfuzz 0 ''J2'' (tracking ACTIVE) raw_engineer_again
        (Some (jan15 + timedelta_days 30)))) = REPOST"
  by code_simp

text \<open>
  C2 (as the code has it). On the reopening path the returned job, which is the job
  stored at the closed job's position, keeps the signature the closed job had: the
  signature computed from the raw observation is not written to it.
\<close>

theorem reopening_keeps_signature:
  assumes "find_by_source_id st (RawJob.company_id raw_job) (RawJob.source_identifier raw_job) = None"
    and "find_similar_recent_job fz st (raw_signature raw_job) (RawJob.company_id raw_job)
           (time_or_now utcnow t) = None"
    and "find_closed_similar_job fz st (raw_signature raw_job) (RawJob.company_id raw_job)
           = Some (i, job)"
  shows "status (fst (classify_job fz utcnow uuid4 st raw_job t)) = REOPENED
         \<and> signature (fst (classify_job fz utcnow uuid4 st raw_job t)) = signature job
         \<and> snd (known_jobs (snd (classify_job fz utcnow uuid4 st raw_job t)) ! i)
             = fst (classify_job fz utcnow uuid4 st raw_job t)"
proof -
  have "(i, job) \<in> set (job_values st)"
    using assms(3) find_closed_similar_job_member closed_jobs_member by blast
  then have "i < length (known_jobs st)"
    using job_values_member by blast
  then show ?thesis
    by (simp add: classify_job_reopening [OF assms] put_value_nth)
qed

theorem reopening_keeps_signature_witness:
  "find_by_source_id (tracking CLOSED) (RawJob.company_id raw_engineers)
       (RawJob.source_identifier raw_engineers) = None
   \<and> find_similar_recent_job rapidfuzz (tracking CLOSED) (raw_signature raw_engineers)
       (RawJob.company_id raw_engineers) (time_or_now 0 (Some (jan15 + timedelta_days 60))) = None
   \<and> find_closed_similar_job rapidfuzz (tracking CLOSED) (raw_signature raw_engineers)
       (RawJob.company_id raw_engineers) = Some (0, tracked_engineer\<lparr>status := CLOSED\<rparr>)
   \<and> signature (fst (classify_job rapidfuzz 0 ''J2'' (tracking CLOSED) raw_engineers
         (Some (jan15 + timedelta_days 60)))) = signature (tracked_engineer\<lparr>status := CLOSED\<rparr>)"
proof -
  have h1: "find_by_source_id (tracking CLOSED) (RawJob.company_id raw_engineers)
       (RawJob.source_identifier raw_engineers) = None" by code_simp
  have h2: "find_similar_recent_job rapidfuzz (tracking CLOSED) (raw_signature raw_engineers)
       (RawJob.company_id raw_engineers) (time_or_now 0 (Some (jan15 + timedelta_days 60))) = None"
    by code_simp
  have h3: "find_closed_similar_job rapidfuzz (tracking CLOSED) (raw_signature raw_engineers)
       (RawJob.company_id raw_engineers) = Some (0, tracked_engineer\<lparr>status := CLOSED\<rparr>)"
    by code_simp
  from reopening_keeps_signature [OF h1 h2 h3, of "''J2''"] h1 h2 h3 show ?thesis by blast
qed

text \<open>
  C2 (as stated) fails: a closed ``Engineer'' posting is reopened by an ``Engineers''
  posting, and the returned job still carries the signature of the former.
\<close>

theorem reopening_signature_counterexample:
  "status (fst (classify_job rapidfuzz 0 ''J2'' (tracking CLOSED) raw_engineers
       (Some (jan15 + timedelta_days 60)))) = REOPENED
   \<and> signature (fst (classify_job rapidfuzz 0 ''J2'' (tracking CLOSED) raw_engineers
       (Some (jan15 + timedelta_days 60)))) = ''acme|engineer|remote''
   \<and> create_signature (RawJob.company_id raw_engineers) (RawJob.title raw_engineers)
       (RawJob.location raw_engineers) = ''acme|engineers|remote''"
  by code_simp

text \<open>
  C3 (as the code has it). A tracked job whose status is Reopened keeps that status when
  \<open>classify_job\<close> receives an observation with its company id and its (non-empty) source
  identifier: the identifier scan finds a job, and the exact-identifier path turns only
  Missing into Active (the job it returns has the status of the job found, or Active if
  that was Missing). When the scan finds this very job, it is returned as Reopened.
\<close>

theorem reopened_job_stays_reopened:
  assumes "(i, job) \<in> set (job_values st)"
    and "status job = REOPENED"
    and "company_id job = RawJob.company_id raw_job"
    and "source_identifier job = RawJob.source_identifier raw_job"
    and "truthy (RawJob.source_identifier raw_job)"
  shows "find_by_source_id st (RawJob.company_id raw_job) (RawJob.source_identifier raw_job) \<noteq> None
         \<and> status (snd (known_jobs (snd (classify_job fz utcnow uuid4 st raw_job t)) ! i)) = REOPENED
         \<and> (find_by_source_id st (RawJob.company_id raw_job) (RawJob.source_identifier raw_job)
               = Some (i, job)
             \<longrightarrow> status (fst (classify_job fz utcnow uuid4 st raw_job t)) = REOPENED)
         \<and> (\<forall>i0 j0. find_by_source_id st (RawJob.company_id raw_job)
                        (RawJob.source_identifier raw_job) = Some (i0, j0)
               \<longrightarrow> status (fst (classify_job fz utcnow uuid4 st raw_job t))
                     = (if status j0 = MISSING then ACTIVE else status j0))"
proof -
  have found: "find_by_source_id st (RawJob.company_id raw_job) (RawJob.source_identifier raw_job) \<noteq> None"
    using assms by (intro find_by_source_id_finds [of i job]) auto
  then obtain i0 j0 where
    f: "find_by_source_id st (RawJob.company_id raw_job) (RawJob.source_identifier raw_job)
          = Some (i0, j0)"
    by auto
  have i: "i < length (known_jobs st)" and job: "snd (known_jobs st ! i) = job"
    using assms(1) job_values_member by blast+
  have "(i0, j0) \<in> set (job_values st)"
    using f by (rule find_by_source_id_member)
  then have i0: "i0 < length (known_jobs st)" and j0: "snd (known_jobs st ! i0) = j0"
    using job_values_member by blast+
  have stored: "status (snd (known_jobs (snd (classify_job fz utcnow uuid4 st raw_job t)) ! i)) = REOPENED"
  proof (cases "i = i0")
    case True
    with job j0 have "j0 = job" by simp
    with True i0 assms(2) show ?thesis
      by (simp add: classify_job_exact [OF f] put_value_nth)
  next
    case False
    with job assms(2) show ?thesis
      by (simp add: classify_job_exact(2) [OF f] put_value_nth_other)
  qed
  have returned: "find_by_source_id st (RawJob.company_id raw_job) (RawJob.source_identifier raw_job)
               = Some (i, job)
             \<longrightarrow> status (fst (classify_job fz utcnow uuid4 st raw_job t)) = REOPENED"
    using assms(2) by (auto simp: classify_job_exact(1))
  have general: "\<forall>i0 j0. find_by_source_id st (RawJob.company_id raw_job)
                        (RawJob.source_identifier raw_job) = Some (i0, j0)
               \<longrightarrow> status (fst (classify_job fz utcnow uuid4 st raw_job t))
                     = (if status j0 = MISSING then ACTIVE else status j0)"
    by (auto simp: classify_job_exact(1))
  from found stored returned general show ?thesis by blast
qed

theorem reopened_job_stays_reopened_witness:
  "(0, tracked_engineer\<lparr>status := REOPENED\<rparr>) \<in> set (job_values (tracking REOPENED))
   \<and> status (tracked_engineer\<lparr>status := REOPENED\<rparr>) = REOPENED
   \<and> company_id (tracked_engineer\<lparr>status := REOPENED\<rparr>) = RawJob.company_id raw_engineer
   \<and> source_identifier (tracked_engineer\<lparr>status := REOPENED\<rparr>)
       = RawJob.source_identifier raw_engineer
   \<and> truthy (RawJob.source_identifier raw_engineer)
   \<and> find_by_source_id (tracking REOPENED) (RawJob.company_id raw_engineer)
        (RawJob.source_identifier raw_engineer) = Some (0, tracked_engineer\<lparr>status := REOPENED\<rparr>)
   \<and> status (snd (known_jobs (snd (classify_job rapidfuzz 0 ''J2'' (tracking REOPENED)
         raw_engineer (Some (jan15 + timedelta_days 1)))) ! 0)) = REOPENED
   \<and> status (fst (classify_job rapidfuzz 0 ''J2'' (tracking REOPENED)
         raw_engineer (Some (jan15 + timedelta_days 1)))) = REOPENED"
proof -
  have h1: "(0, tracked_engineer\<lparr>status := REOPENED\<rparr>) \<in> set (job_values (tracking REOPENED))"
    by code_simp
  have h2: "status (tracked_engineer\<lparr>status := REOPENED\<rparr>) = REOPENED" by simp
  have h3: "company_id (tracked_engineer\<lparr>status := REOPENED\<rparr>) = RawJob.company_id raw_engineer"
    by code_simp
  have h4: "source_identifier (tracked_engineer\<lparr>status := REOPENED\<rparr>)
       = RawJob.source_identifier raw_engineer" by code_simp
  have h5: "truthy (RawJob.source_identifier raw_engineer)" by code_simp
  have h6: "find_by_source_id (tracking REOPENED) (RawJob.company_id raw_engineer)
        (RawJob.source_identifier raw_engineer) = Some (0, tracked_engineer\<lparr>status := REOPENED\<rparr>)"
    by code_simp
  from reopened_job_stays_reopened [OF h1 h2 h3 h4 h5, of rapidfuzz 0 "''J2''"
      "Some (jan15 + timedelta_days 1)"] h6
  have "status (snd (known_jobs (snd (classify_job rapidfuzz 0 ''J2'' (tracking REOPENED)
         raw_engineer (Some (jan15 + timedelta_days 1)))) ! 0)) = REOPENED
   \<and> status (fst (classify_job rapidfuzz 0 ''J2'' (tracking REOPENED)
         raw_engineer (Some (jan15 + timedelta_days 1)))) = REOPENED"
    by blast
  with h1 h2 h3 h4 h5 h6 show ?thesis by blast
qed

text \<open>
  C3 (as stated) fails: the tracked job is Reopened, the observation carries its company
  id and its source identifier, and after \<open>classify_job\<close> the job is still Reopened, both
  as returned and as stored.
\<close>

theorem reopened_to_active_counterexample:
  "status (snd (known_jobs (tracking REOPENED) ! 0)) = REOPENED
   \<and> company_id (snd (known_jobs (tracking REOPENED) ! 0)) = RawJob.company_id raw_engineer
   \<and> source_identifier (snd (known_jobs (tracking REOPENED) ! 0)) = Some ''job-1''
   \<and> RawJob.source_identifier raw_engineer = Some ''job-1''
   \<and> status (fst (classify_job rapidfuzz 0 ''J2'' (tracking REOPENED) raw_engineer
         (Some (jan15 + timedelta_days 1)))) = REOPENED
   \<and> status (snd (known_jobs (snd (classify_job rapidfuzz 0 ''J2'' (tracking REOPENED) raw_engineer
         (Some (jan15 + timedelta_days 1)))) ! 0)) = REOPENED"
  by code_simp

text \<open>
  C4. The code at a reopening: the job was last seen, and so closed, on 2024-01-15; it is
  reopened by an observation of 2024-03-15, and the rewritten reasoning gives 2024-03-15,
  the date of the current observation, as the day it ``was closed on''.
\<close>

theorem reopening_reasoning_gives_observation_date:
  "date_str (date (last_seen (snd (known_jobs (tracking CLOSED) ! 0)))) = ''2024-01-15''
   \<and> date_str (date (jan15 + timedelta_days 60)) = ''2024-03-15''
   \<and> classification_reasoning (fst (classify_job rapidfuzz 0 ''J2'' (tracking CLOSED) raw_engineers
         (Some (jan15 + timedelta_days 60))))
       = ''Job reopened (was closed on 2024-03-15, originally first seen 2024-01-15)''"
  by code_simp




text \<open>
  C6. The code at a tie on score 0: the threshold 0 is accepted by the constructor, both
  candidates score 0 against the query, which is the maximal score and meets the
  threshold (\<open>is_match\<close> holds for each of them), and \<open>find_best_match\<close> returns no
  candidate, where the earliest of the tied candidates is due.
\<close>

theorem find_best_match_tie_on_zero:
  "JobMatcher_init 0 = Inr \<lparr>similarity_threshold = 0\<rparr>
   \<and> calculate_similarity rapidfuzz ''a|b|c'' ''x|y|z'' = 0
   \<and> calculate_similarity rapidfuzz ''a|b|c'' ''u|v|w'' = 0
   \<and> is_match rapidfuzz \<lparr>similarity_threshold = 0\<rparr> ''a|b|c'' ''x|y|z''
   \<and> is_match rapidfuzz \<lparr>similarity_threshold = 0\<rparr> ''a|b|c'' ''u|v|w''
   \<and> find_best_match rapidfuzz \<lparr>similarity_threshold = 0\<rparr> ''a|b|c'' [''x|y|z'', ''u|v|w''] = None
   \<and> find_best_match_score rapidfuzz \<lparr>similarity_threshold = 0\<rparr> ''a|b|c'' [''x|y|z'', ''u|v|w'']
       = (None, 0)"
  by code_simp

theorem find_best_match_tie_on_zero_witness:
  "find_best_match rapidfuzz \<lparr>similarity_threshold = 0\<rparr> ''a|b|c'' [''x|y|z'', ''u|v|w''] = None"
  using find_best_match_tie_on_zero by blast

text \<open>
  C7. Constructing a \<open>JobMatcher\<close> raises the invalid-configuration error
  (\<open>ValueError\<close>) for every threshold below 0 or above 1; for every threshold from 0 to 1
  it succeeds and stores exactly that threshold, never a clamped one.
\<close>

theorem JobMatcher_init_threshold:
  "(threshold < 0 \<or> 1 < threshold \<longrightarrow> JobMatcher_init threshold = Inl (ValueError threshold))
   \<and> (0 \<le> threshold \<and> threshold \<le> 1 \<longrightarrow>
        JobMatcher_init threshold = Inr \<lparr>similarity_threshold = threshold\<rparr>)"
  by (auto simp: JobMatcher_init_def)

theorem JobMatcher_init_threshold_witness:
  "JobMatcher_init (3 / 2) = Inl (ValueError (3 / 2))
   \<and> JobMatcher_init (- 1 / 10) = Inl (ValueError (- 1 / 10))
   \<and> JobMatcher_init (9 / 10) = Inr \<lparr>similarity_threshold = 9 / 10\<rparr>
   \<and> JobMatcher_init 0 = Inr \<lparr>similarity_threshold = 0\<rparr>
   \<and> JobMatcher_init 1 = Inr \<lparr>similarity_threshold = 1\<rparr>"
  using JobMatcher_init_threshold [of "3 / 2"] JobMatcher_init_threshold [of "- 1 / 10"]
    JobMatcher_init_threshold [of "9 / 10"] JobMatcher_init_threshold [of 0]
    JobMatcher_init_threshold [of 1]
  by simp

text \<open>
  C8. \<open>mark_missing_jobs\<close> is idempotent: called a second time with the same observed
  ids right after the first call, at any time, it returns 0 and changes nothing, so
  every job keeps the status the first call left it with.
\<close>

theorem mark_missing_jobs_idempotent:
  "mark_missing_jobs u2 (snd (mark_missing_jobs u1 st observed_job_ids t1)) observed_job_ids t2
     = (0, snd (mark_missing_jobs u1 st observed_job_ids t1))"
  by (simp add: mark_missing_jobs_def Let_def mark_missing_loop_again)

theorem mark_missing_jobs_idempotent_witness:
  "fst (mark_missing_jobs 0 (tracking ACTIVE) [] (Some jan15)) = 1
   \<and> mark_missing_jobs 0 (snd (mark_missing_jobs 0 (tracking ACTIVE) [] (Some jan15))) []
         (Some (jan15 + 1))
       = (0, snd (mark_missing_jobs 0 (tracking ACTIVE) [] (Some jan15)))"
proof (rule conjI)
  show "fst (mark_missing_jobs 0 (tracking ACTIVE) [] (Some jan15)) = 1"
    by code_simp
  show "mark_missing_jobs 0 (snd (mark_missing_jobs 0 (tracking ACTIVE) [] (Some jan15))) []
          (Some (jan15 + 1))
        = (0, snd (mark_missing_jobs 0 (tracking ACTIVE) [] (Some jan15)))"
    by (rule mark_missing_jobs_idempotent)
qed

text \<open>
  C9. No core operation changes the classification of a job that is already tracked:
  \<open>classify_job\<close> when the identifier scan finds a job, \<open>classify_job\<close> when it reopens a
  closed job, \<open>mark_missing_jobs\<close> and \<open>close_old_missing_jobs\<close> all leave the
  classification stored under every key as it was.
\<close>

theorem classification_never_mutated:
  "(find_by_source_id st (RawJob.company_id raw_job) (RawJob.source_identifier raw_job) \<noteq> None
      \<longrightarrow> classifications (snd (classify_job fz utcnow uuid4 st raw_job t)) = classifications st)
   \<and> (find_by_source_id st (RawJob.company_id raw_job) (RawJob.source_identifier raw_job) = None
        \<and> find_similar_recent_job fz st (raw_signature raw_job) (RawJob.company_id raw_job)
             (time_or_now utcnow t) = None
        \<and> find_closed_similar_job fz st (raw_signature raw_job) (RawJob.company_id raw_job) \<noteq> None
      \<longrightarrow> classifications (snd (classify_job fz utcnow uuid4 st raw_job t)) = classifications st)
   \<and> classifications (snd (mark_missing_jobs utcnow st observed_job_ids t)) = classifications st
   \<and> classifications (snd (close_old_missing_jobs utcnow st timeout_days t)) = classifications st"
proof (intro conjI impI)
  assume "find_by_source_id st (RawJob.company_id raw_job) (RawJob.source_identifier raw_job) \<noteq> None"
  then obtain f where
    f: "find_by_source_id st (RawJob.company_id raw_job) (RawJob.source_identifier raw_job) = Some f"
    by auto
  then have "f \<in> set (job_values st)" by (rule find_by_source_id_member)
  then show "classifications (snd (classify_job fz utcnow uuid4 st raw_job t)) = classifications st"
    by (simp add: classify_job_def Let_def f update_existing_job_classification)
next
  assume a: "find_by_source_id st (RawJob.company_id raw_job) (RawJob.source_identifier raw_job) = None
        \<and> find_similar_recent_job fz st (raw_signature raw_job) (RawJob.company_id raw_job)
             (time_or_now utcnow t) = None
        \<and> find_closed_similar_job fz st (raw_signature raw_job) (RawJob.company_id raw_job) \<noteq> None"
  then obtain f where
    f: "find_closed_similar_job fz st (raw_signature raw_job) (RawJob.company_id raw_job) = Some f"
    by auto
  then have "f \<in> set (job_values st)"
    using find_closed_similar_job_member closed_jobs_member by blast
  then show "classifications (snd (classify_job fz utcnow uuid4 st raw_job t)) = classifications st"
    using a by (simp add: classify_job_def Let_def f classify_as_reopened_classification)
next
  show "classifications (snd (mark_missing_jobs utcnow st observed_job_ids t)) = classifications st"
    by (simp add: mark_missing_jobs_def classifications_def Let_def mark_missing_loop_classification)
next
  show "classifications (snd (close_old_missing_jobs utcnow st timeout_days t)) = classifications st"
    by (simp add: close_old_missing_jobs_def classifications_def Let_def close_old_loop_classification)
qed

theorem classification_never_mutated_witness:
  "find_by_source_id (tracking MISSING) (RawJob.company_id raw_engineer)
       (RawJob.source_identifier raw_engineer) \<noteq> None
   \<and> classifications (snd (classify_job rapidfuzz 0 ''J2'' (tracking MISSING) raw_engineer
          (Some (jan15 + 1)))) = [(''J1'', NEW)]
   \<and> find_by_source_id (tracking CLOSED) (RawJob.company_id raw_engineers)
       (RawJob.source_identifier raw_engineers) = None
   \<and> find_similar_recent_job rapidfuzz (tracking CLOSED) (raw_signature raw_engineers)
       (RawJob.company_id raw_engineers) (time_or_now 0 (Some (jan15 + 1))) = None
   \<and> find_closed_similar_job rapidfuzz (tracking CLOSED) (raw_signature raw_engineers)
       (RawJob.company_id raw_engineers) \<noteq> None
   \<and> classifications (snd (classify_job rapidfuzz 0 ''J2'' (tracking CLOSED) raw_engineers
          (Some (jan15 + 1)))) = [(''J1'', NEW)]
   \<and> classifications (snd (mark_missing_jobs 0 (tracking ACTIVE) [] (Some jan15))) = [(''J1'', NEW)]
   \<and> classifications (snd (close_old_missing_jobs 0 (tracking MISSING) 7
          (Some (jan15 + timedelta_days 8)))) = [(''J1'', NEW)]"
proof -
  have c1: "classifications (tracking MISSING) = [(''J1'', NEW)]" by code_simp
  have c2: "classifications (tracking CLOSED) = [(''J1'', NEW)]" by code_simp
  have c3: "classifications (tracking ACTIVE) = [(''J1'', NEW)]" by code_simp
  have h1: "find_by_source_id (tracking MISSING) (RawJob.company_id raw_engineer)
       (RawJob.source_identifier raw_engineer) \<noteq> None" by code_simp
  have h2: "find_by_source_id (tracking CLOSED) (RawJob.company_id raw_engineers)
       (RawJob.source_identifier raw_engineers) = None" by code_simp
  have h3: "find_similar_recent_job rapidfuzz (tracking CLOSED) (raw_signature raw_engineers)
       (RawJob.company_id raw_engineers) (time_or_now 0 (Some (jan15 + 1))) = None" by code_simp
  have h4: "find_closed_similar_job rapidfuzz (tracking CLOSED) (raw_signature raw_engineers)
       (RawJob.company_id raw_engineers) \<noteq> None" by code_simp
  note a = classification_never_mutated [of "tracking MISSING" raw_engineer rapidfuzz 0 "''J2''"
      "Some (jan15 + 1)" "[]" 7]
  note b = classification_never_mutated [of "tracking CLOSED" raw_engineers rapidfuzz 0 "''J2''"
      "Some (jan15 + 1)" "[]" 7]
  note c = classification_never_mutated [of "tracking ACTIVE" raw_engineer rapidfuzz 0 "''J2''"
      "Some jan15" "[]" 7]
  note d = classification_never_mutated [of "tracking MISSING" raw_engineer rapidfuzz 0 "''J2''"
      "Some (jan15 + timedelta_days 8)" "[]" 7]
  from a h1 c1 have r1: "classifications (snd (classify_job rapidfuzz 0 ''J2'' (tracking MISSING)
      raw_engineer (Some (jan15 + 1)))) = [(''J1'', NEW)]" by metis
  from b h2 h3 h4 c2 have r2: "classifications (snd (classify_job rapidfuzz 0 ''J2''
      (tracking CLOSED) raw_engineers (Some (jan15 + 1)))) = [(''J1'', NEW)]" by metis
  from c c3 have r3: "classifications (snd (mark_missing_jobs 0 (tracking ACTIVE) []
      (Some jan15))) = [(''J1'', NEW)]" by metis
  from d c1 have r4: "classifications (snd (close_old_missing_jobs 0 (tracking MISSING) 7
      (Some (jan15 + timedelta_days 8)))) = [(''J1'', NEW)]" by metis
  from h1 r1 h2 h3 h4 r2 r3 r4 show ?thesis by blast
qed

text \<open>
  C10 (as the code has it). When the identifier scan finds a Closed job for the
  observation's company id and source identifier, \<open>classify_job\<close> returns that job with
  \<open>last_seen\<close> (and \<open>updated_at\<close>) set to the current time, one observation appended and
  everything else, the status Closed included, as it was, and stores it at its position.
  The scan finds a job whenever some tracked job carries the observation's company id and
  its non-empty source identifier, and then no job becomes Reopened in the call. The job
  it finds is the first one, in dictionary order, that carries them.
\<close>

theorem closed_job_exact_identifier:
  "(find_by_source_id st (RawJob.company_id raw_job) (RawJob.source_identifier raw_job) = Some (i, job)
      \<and> status job = CLOSED
    \<longrightarrow> fst (classify_job fz utcnow uuid4 st raw_job t)
          = job\<lparr>last_seen := time_or_now utcnow t,
                updated_at := Some (time_or_now utcnow t),
                observations := observations job
                  @ [new_observation raw_job (time_or_now utcnow t) None]\<rparr>
        \<and> status (fst (classify_job fz utcnow uuid4 st raw_job t)) = CLOSED
        \<and> snd (known_jobs (snd (classify_job fz utcnow uuid4 st raw_job t)) ! i)
            = fst (classify_job fz utcnow uuid4 st raw_job t))
   \<and> ((k, tracked) \<in> set (job_values st)
        \<and> company_id tracked = RawJob.company_id raw_job
        \<and> source_identifier tracked = RawJob.source_identifier raw_job
        \<and> truthy (RawJob.source_identifier raw_job)
      \<longrightarrow> find_by_source_id st (RawJob.company_id raw_job) (RawJob.source_identifier raw_job) \<noteq> None
        \<and> (\<forall>n < length (known_jobs st).
              status (snd (known_jobs (snd (classify_job fz utcnow uuid4 st raw_job t)) ! n)) = REOPENED
              \<longrightarrow> status (snd (known_jobs st ! n)) = REOPENED))
   \<and> ((i, job) \<in> set (job_values st)
        \<and> company_id job = RawJob.company_id raw_job
        \<and> source_identifier job = RawJob.source_identifier raw_job
        \<and> truthy (RawJob.source_identifier raw_job)
        \<and> (\<forall>(n, other) \<in> set (job_values st).
              n < i \<longrightarrow> \<not> (company_id other = RawJob.company_id raw_job
                            \<and> source_identifier other = RawJob.source_identifier raw_job))
      \<longrightarrow> find_by_source_id st (RawJob.company_id raw_job) (RawJob.source_identifier raw_job)
            = Some (i, job))"
proof (intro conjI impI)
  assume a: "find_by_source_id st (RawJob.company_id raw_job) (RawJob.source_identifier raw_job)
               = Some (i, job) \<and> status job = CLOSED"
  then have f: "find_by_source_id st (RawJob.company_id raw_job) (RawJob.source_identifier raw_job)
               = Some (i, job)" and c: "status job = CLOSED"
    by simp_all
  have "(i, job) \<in> set (job_values st)"
    using f by (rule find_by_source_id_member)
  then have i: "i < length (known_jobs st)"
    using job_values_member by blast
  show "fst (classify_job fz utcnow uuid4 st raw_job t)
          = job\<lparr>last_seen := time_or_now utcnow t,
                updated_at := Some (time_or_now utcnow t),
                observations := observations job
                  @ [new_observation raw_job (time_or_now utcnow t) None]\<rparr>"
    using c by (simp add: classify_job_exact(1) [OF f])
  show "status (fst (classify_job fz utcnow uuid4 st raw_job t)) = CLOSED"
    using c by (simp add: classify_job_exact(1) [OF f])
  show "snd (known_jobs (snd (classify_job fz utcnow uuid4 st raw_job t)) ! i)
            = fst (classify_job fz utcnow uuid4 st raw_job t)"
    using i by (simp add: classify_job_exact(2) [OF f] put_value_nth)
next
  assume a: "(k, tracked) \<in> set (job_values st)
        \<and> company_id tracked = RawJob.company_id raw_job
        \<and> source_identifier tracked = RawJob.source_identifier raw_job
        \<and> truthy (RawJob.source_identifier raw_job)"
  then show found: "find_by_source_id st (RawJob.company_id raw_job)
      (RawJob.source_identifier raw_job) \<noteq> None"
    by (intro find_by_source_id_finds [of k tracked]) auto
  then obtain i0 j0 where
    f: "find_by_source_id st (RawJob.company_id raw_job) (RawJob.source_identifier raw_job)
          = Some (i0, j0)"
    by auto
  have "(i0, j0) \<in> set (job_values st)"
    using f by (rule find_by_source_id_member)
  then have i0: "i0 < length (known_jobs st)" and j0: "snd (known_jobs st ! i0) = j0"
    using job_values_member by blast+
  show "\<forall>n < length (known_jobs st).
          status (snd (known_jobs (snd (classify_job fz utcnow uuid4 st raw_job t)) ! n)) = REOPENED
          \<longrightarrow> status (snd (known_jobs st ! n)) = REOPENED"
  proof (intro allI impI)
    fix n
    assume n: "n < length (known_jobs st)"
      and r: "status (snd (known_jobs (snd (classify_job fz utcnow uuid4 st raw_job t)) ! n)) = REOPENED"
    show "status (snd (known_jobs st ! n)) = REOPENED"
    proof (cases "n = i0")
      case True
      with r i0 have "(if status j0 = MISSING then ACTIVE else status j0) = REOPENED"
        by (simp add: classify_job_exact [OF f] put_value_nth)
      then have "status j0 = REOPENED" by (simp split: if_splits)
      with True j0 show ?thesis by simp
    next
      case False
      with r show ?thesis
        by (simp add: classify_job_exact(2) [OF f] put_value_nth_other)
    qed
  qed
next
  assume "(i, job) \<in> set (job_values st)
        \<and> company_id job = RawJob.company_id raw_job
        \<and> source_identifier job = RawJob.source_identifier raw_job
        \<and> truthy (RawJob.source_identifier raw_job)
        \<and> (\<forall>(n, other) \<in> set (job_values st).
              n < i \<longrightarrow> \<not> (company_id other = RawJob.company_id raw_job
                            \<and> source_identifier other = RawJob.source_identifier raw_job))"
  then show "find_by_source_id st (RawJob.company_id raw_job) (RawJob.source_identifier raw_job)
            = Some (i, job)"
    by (intro find_by_source_id_first) simp_all
qed

theorem closed_job_exact_identifier_witness:
  "(0, tracked_engineer\<lparr>status := CLOSED\<rparr>) \<in> set (job_values (tracking CLOSED))
   \<and> company_id (tracked_engineer\<lparr>status := CLOSED\<rparr>) = RawJob.company_id raw_engineer
   \<and> source_identifier (tracked_engineer\<lparr>status := CLOSED\<rparr>)
       = RawJob.source_identifier raw_engineer
   \<and> truthy (RawJob.source_identifier raw_engineer)
   \<and> status (tracked_engineer\<lparr>status := CLOSED\<rparr>) = CLOSED
   \<and> 0 < length (known_jobs (tracking CLOSED))
   \<and> find_by_source_id (tracking CLOSED) (RawJob.company_id raw_engineer)
       (RawJob.source_identifier raw_engineer) = Some (0, tracked_engineer\<lparr>status := CLOSED\<rparr>)
   \<and> status (fst (classify_job rapidfuzz 0 ''J2'' (tracking CLOSED) raw_engineer
         (Some (jan15 + timedelta_days 60)))) = CLOSED
   \<and> last_seen (fst (classify_job rapidfuzz 0 ''J2'' (tracking CLOSED) raw_engineer
         (Some (jan15 + timedelta_days 60)))) = jan15 + timedelta_days 60"
proof -
  have h1: "(0, tracked_engineer\<lparr>status := CLOSED\<rparr>) \<in> set (job_values (tracking CLOSED))"
    by code_simp
  have h2: "company_id (tracked_engineer\<lparr>status := CLOSED\<rparr>) = RawJob.company_id raw_engineer"
    by code_simp
  have h3: "source_identifier (tracked_engineer\<lparr>status := CLOSED\<rparr>)
       = RawJob.source_identifier raw_engineer" by code_simp
  have h4: "truthy (RawJob.source_identifier raw_engineer)" by code_simp
  have h5: "\<forall>(n, other) \<in> set (job_values (tracking CLOSED)).
         n < 0 \<longrightarrow> \<not> (company_id other = RawJob.company_id raw_engineer
                         \<and> source_identifier other = RawJob.source_identifier raw_engineer)"
    by simp
  have h6: "status (tracked_engineer\<lparr>status := CLOSED\<rparr>) = CLOSED" by simp
  have h7: "0 < length (known_jobs (tracking CLOSED))" by code_simp
  have h8: "time_or_now 0 (Some (jan15 + timedelta_days 60)) = jan15 + timedelta_days 60"
    by (simp add: time_or_now_def)
  note inst = closed_job_exact_identifier [of "tracking CLOSED" raw_engineer 0
      "tracked_engineer\<lparr>status := CLOSED\<rparr>" rapidfuzz 0 "''J2''" "Some (jan15 + timedelta_days 60)"
      0 "tracked_engineer\<lparr>status := CLOSED\<rparr>"]
  from inst h1 h2 h3 h4 h5
  have f: "find_by_source_id (tracking CLOSED) (RawJob.company_id raw_engineer)
       (RawJob.source_identifier raw_engineer) = Some (0, tracked_engineer\<lparr>status := CLOSED\<rparr>)"
    by simp
  from inst f h6
  have r: "fst (classify_job rapidfuzz 0 ''J2'' (tracking CLOSED) raw_engineer
         (Some (jan15 + timedelta_days 60)))
       = tracked_engineer\<lparr>status := CLOSED,
           last_seen := time_or_now 0 (Some (jan15 + timedelta_days 60)),
           updated_at := Some (time_or_now 0 (Some (jan15 + timedelta_days 60))),
           observations := observations (tracked_engineer\<lparr>status := CLOSED\<rparr>)
             @ [new_observation raw_engineer (time_or_now 0 (Some (jan15 + timedelta_days 60))) None]\<rparr>"
    by simp
  have s: "status (fst (classify_job rapidfuzz 0 ''J2'' (tracking CLOSED) raw_engineer
         (Some (jan15 + timedelta_days 60)))) = CLOSED"
    by (simp add: r)
  have l: "last_seen (fst (classify_job rapidfuzz 0 ''J2'' (tracking CLOSED) raw_engineer
         (Some (jan15 + timedelta_days 60)))) = jan15 + timedelta_days 60"
    by (simp add: r h8)
  from h1 h2 h3 h4 h6 h7 f s l show ?thesis by blast
qed

text \<open>
  C10 (as stated) fails in two ways. A source identifier that is the empty string is not
  null, yet the identifier scan is skipped for it: the Closed job that stores it is
  reopened by an observation that carries it. And the scan returns the first tracked job
  with the company id and identifier, which need not be the Closed one: the Closed job
  below stays as it was and the job before it is returned.
\<close>

theorem closed_job_exact_identifier_counterexample:
  "status (snd (known_jobs tracking_blank_id ! 0)) = CLOSED
   \<and> source_identifier (snd (known_jobs tracking_blank_id ! 0)) = Some ''''
   \<and> RawJob.source_identifier raw_engineer_blank_id = Some ''''
   \<and> company_id (snd (known_jobs tracking_blank_id ! 0)) = RawJob.company_id raw_engineer_blank_id
   \<and> status (fst (classify_job rapidfuzz 0 ''J2'' tracking_blank_id raw_engineer_blank_id
         (Some (jan15 + timedelta_days 60)))) = REOPENED
   \<and> status (snd (known_jobs tracking_twice ! 1)) = CLOSED
   \<and> source_identifier (snd (known_jobs tracking_twice ! 1)) = RawJob.source_identifier raw_engineer
   \<and> company_id (snd (known_jobs tracking_twice ! 1)) = RawJob.company_id raw_engineer
   \<and> id' (snd (known_jobs tracking_twice ! 1)) = ''J1''
   \<and> id' (fst (classify_job rapidfuzz 0 ''J2'' tracking_twice raw_engineer
         (Some (jan15 + timedelta_days 60)))) = ''J0''
   \<and> status (fst (classify_job rapidfuzz 0 ''J2'' tracking_twice raw_engineer
         (Some (jan15 + timedelta_days 60)))) = ACTIVE
   \<and> last_seen (snd (known_jobs (snd (classify_job rapidfuzz 0 ''J2'' tracking_twice raw_engineer
         (Some (jan15 + timedelta_days 60)))) ! 1)) = jan15"
  by code_simp

end
